theory Spec2Isabelle
  imports Complex_Main
begin

section \<open>Python values, float parsing and fixed-point formatting\<close>

text \<open>
  The program keeps prices and percentages as Python floats and moves them between
  components as display strings (\<^verbatim>\<open>"$123.45"\<close>, \<^verbatim>\<open>"1.25%"\<close>). Numbers are
  modelled as exact rationals: binary rounding of floats, infinities and NaN are
  outside the model. A data frame cell is \<^verbatim>\<open>None\<close>, a float or a string.
\<close>

datatype cell = PyNone | PyFloat rat | PyStr string

datatype py_error =
    ValueError
  | AttributeError
  | ZeroDivisionError
  | ConnectionException
  | ConstraintException
  | ConversionException

datatype log_level = DEBUG | INFO | WARNING | ERROR

type_synonym log_entry = "log_level \<times> string"

subsection \<open>\<^verbatim>\<open>str.replace(c, '')\<close> and \<^verbatim>\<open>float(str)\<close>\<close>

definition str_remove :: "char \<Rightarrow> string \<Rightarrow> string" where
  "str_remove c s = filter (\<lambda>d. d \<noteq> c) s"

definition is_digit :: "char \<Rightarrow> bool" where
  "is_digit c = (c \<in> set ''0123456789'')"

definition digit_val :: "char \<Rightarrow> nat" where
  "digit_val c = of_char c - 48"

definition digit_char :: "nat \<Rightarrow> char" where
  "digit_char d = ''0123456789'' ! d"

definition is_space :: "char \<Rightarrow> bool" where
  "is_space c = (c \<in> set [CHR '' '', CHR 0x09, CHR 0x0A, CHR 0x0B, CHR 0x0C, CHR 0x0D])"

definition strip :: "string \<Rightarrow> string" where
  "strip s = rev (dropWhile is_space (rev (dropWhile is_space s)))"

definition digits_val :: "string \<Rightarrow> nat" where
  "digits_val ds = foldl (\<lambda>acc c. acc * 10 + digit_val c) 0 ds"

text \<open>
  \<^verbatim>\<open>float(s)\<close> on the plain decimal literals: surrounding whitespace is dropped, then an
  optional sign, digits, and an optional point followed by digits, with at least one
  digit overall. Anything else raises \<^verbatim>\<open>ValueError\<close>. Python also reads exponents,
  underscores between digits and the words inf/nan; none of the strings this program
  builds has that form, and the model rejects them.
\<close>

definition unsigned_float :: "string \<Rightarrow> py_error + rat" where
  "unsigned_float body =
     (let ip = takeWhile is_digit body; rest = dropWhile is_digit body in
      case rest of
        [] \<Rightarrow> if ip = [] then Inl ValueError else Inr (of_nat (digits_val ip))
      | c # fp \<Rightarrow>
          if c = CHR ''.'' \<and> list_all is_digit fp \<and> (ip \<noteq> [] \<or> fp \<noteq> [])
          then Inr (of_nat (digits_val ip) + of_nat (digits_val fp) / 10 ^ length fp)
          else Inl ValueError)"

definition py_float :: "string \<Rightarrow> py_error + rat" where
  "py_float s =
     (case strip s of
        [] \<Rightarrow> Inl ValueError
      | c # r \<Rightarrow>
          if c = CHR ''-'' then map_sum id uminus (unsigned_float r)
          else if c = CHR ''+'' then unsigned_float r
          else unsigned_float (c # r))"

subsection \<open>\<^verbatim>\<open>f"{x:.2f}"\<close>\<close>

fun show_nat :: "nat \<Rightarrow> string" where
  "show_nat n = (if n < 10 then [digit_char n] else show_nat (n div 10) @ [digit_char (n mod 10)])"

declare show_nat.simps [simp del]

definition round_half_even :: "rat \<Rightarrow> int" where
  "round_half_even x =
     (let f = \<lfloor>x\<rfloor>; d = x - of_int f in
      if d < 1 / 2 then f
      else if 1 / 2 < d then f + 1
      else if even f then f else f + 1)"

text \<open>
  Fixed-point formatting with two decimals: the sign of the value, then the digits of
  its magnitude rounded to hundredths (ties to even, as the exact decimal expansion of
  a float is rounded).
\<close>

definition fmt2 :: "rat \<Rightarrow> string" where
  "fmt2 x =
     (let q = nat (round_half_even (\<bar>x\<bar> * 100)) in
      (if x < 0 then ''-'' else '''') @ show_nat (q div 100) @ ''.'' @
      [digit_char (q mod 100 div 10), digit_char (q mod 10)])"

section \<open>Aggregation of source readings (stock\_monitor.py)\<close>

text \<open>
  A client returns a dictionary with the keys \<^verbatim>\<open>price\<close>, \<^verbatim>\<open>prev_close\<close> and
  \<^verbatim>\<open>company_name\<close>, or \<^verbatim>\<open>None\<close>. The two numbers may be \<^verbatim>\<open>None\<close>.
\<close>

record reading =
  price :: "rat option"
  prev_close :: "rat option"
  company_name :: string

text \<open>Python truthiness of an optional number: \<^verbatim>\<open>None\<close> and zero are both false.\<close>

definition truthy :: "rat option \<Rightarrow> bool" where
  "truthy v = (case v of None \<Rightarrow> False | Some x \<Rightarrow> x \<noteq> 0)"

text \<open>
  The loop of \<^verbatim>\<open>calculate_average_price\<close>: one pass over the data sources, appending
  to the two lists.
\<close>

fun collect_prices :: "reading option list \<Rightarrow> rat list \<Rightarrow> rat list \<Rightarrow> rat list \<times> rat list" where
  "collect_prices [] prices prev_closes = (prices, prev_closes)"
| "collect_prices (data # rest) prices prev_closes =
     (let prices' =
            (case data of
               None \<Rightarrow> prices
             | Some d \<Rightarrow> (case price d of
                            None \<Rightarrow> prices
                          | Some p \<Rightarrow> if p \<noteq> 0 then prices @ [p] else prices));
          prev_closes' =
            (case data of
               None \<Rightarrow> prev_closes
             | Some d \<Rightarrow> (case prev_close d of
                            None \<Rightarrow> prev_closes
                          | Some p \<Rightarrow> if p \<noteq> 0 then prev_closes @ [p] else prev_closes))
      in collect_prices rest prices' prev_closes')"

definition calculate_average_price ::
    "reading option list \<Rightarrow> (rat option \<times> rat option) \<times> log_entry list" where
  "calculate_average_price data_sources =
     (case collect_prices data_sources [] [] of
        (prices, prev_closes) \<Rightarrow>
          if prices = [] then
            ((None, None), [(WARNING, ''No valid prices found in any data source'')])
          else if prev_closes = [] then
            ((None, None),
             [(WARNING, ''No valid previous close prices found in any data source'')])
          else
            ((Some (sum_list prices / of_nat (length prices)),
              Some (sum_list prev_closes / of_nat (length prev_closes))),
             [(DEBUG, ''Calculated average price'')]))"

definition calculate_daily_change ::
    "rat option \<Rightarrow> rat option \<Rightarrow> rat option \<times> log_entry list" where
  "calculate_daily_change cur prv =
     (if \<not> truthy cur \<or> \<not> truthy prv \<or> prv = Some 0 then
        (None, [(WARNING, ''Cannot calculate daily change: invalid price data'')])
      else
        (case (cur, prv) of
           (Some c, Some p) \<Rightarrow>
             (Some (((c - p) / p) * 100), [(DEBUG, ''Calculated daily change'')])
         | _ \<Rightarrow> (None, [(ERROR, ''Error calculating daily change'')])))"

text \<open>
  One row of the frame that \<^verbatim>\<open>get_stock_status\<close> builds. The three numeric columns hold
  display strings there; other producers of frames may put floats or \<^verbatim>\<open>None\<close> in them.
\<close>

record quote_row =
  Symbol :: string
  Company :: string
  Current_Price :: cell
  Previous_Close :: cell
  Daily_Change :: cell
  Sources :: string

fun join :: "string \<Rightarrow> string list \<Rightarrow> string" where
  "join sep [] = []"
| "join sep [x] = x"
| "join sep (x # y # ys) = x @ sep @ join sep (y # ys)"

text \<open>
  The body of the loop of \<^verbatim>\<open>get_stock_status\<close> for one symbol. The two clients are the
  parameters \<open>yahoo\<close> and \<open>alpha_vantage\<close> (absent without an API key); each answers a
  symbol with a reading or \<^verbatim>\<open>None\<close> and catches its own errors.
\<close>

definition gather_sources ::
    "(string \<Rightarrow> reading option) \<Rightarrow> (string \<Rightarrow> reading option) option \<Rightarrow> string \<Rightarrow>
     reading list \<times> string list" where
  "gather_sources yahoo alpha_vantage symb =
     (let (ds, ns) = (case yahoo symb of
                        Some d \<Rightarrow> ([d], [''Yahoo Finance''])
                      | None \<Rightarrow> ([], []))
      in case alpha_vantage of
           None \<Rightarrow> (ds, ns)
         | Some client \<Rightarrow>
             (case client symb of
                Some d \<Rightarrow> (ds @ [d], ns @ [''Alpha Vantage''])
              | None \<Rightarrow> (ds, ns)))"

definition status_row :: "string \<Rightarrow> reading list \<Rightarrow> string list \<Rightarrow> quote_row" where
  "status_row symb data_sources source_names =
     (if data_sources = [] then
        \<lparr>Symbol = symb, Company = ''N/A'', Current_Price = PyStr ''N/A'',
         Previous_Close = PyStr ''N/A'', Daily_Change = PyStr ''N/A'', Sources = ''N/A''\<rparr>
      else
        (case fst (calculate_average_price (map Some data_sources)) of
           (avg_price, avg_prev_close) \<Rightarrow>
             let daily_change = fst (calculate_daily_change avg_price avg_prev_close);
                 name = (case filter (\<lambda>n. n \<noteq> ''N/A'') (map company_name data_sources) of
                           [] \<Rightarrow> ''N/A'' | n # _ \<Rightarrow> n)
             in \<lparr>Symbol = symb, Company = name,
                 Current_Price =
                   (if truthy avg_price then PyStr (''$'' @ fmt2 (the avg_price))
                    else PyStr ''N/A''),
                 Previous_Close =
                   (if truthy avg_prev_close then PyStr (''$'' @ fmt2 (the avg_prev_close))
                    else PyStr ''N/A''),
                 Daily_Change =
                   (case daily_change of
                      Some d \<Rightarrow> PyStr (fmt2 d @ ''%'')
                    | None \<Rightarrow> PyStr ''N/A''),
                 Sources = (if source_names = [] then ''N/A'' else join '' + '' source_names)\<rparr>))"

definition get_stock_status ::
    "(string \<Rightarrow> reading option) \<Rightarrow> (string \<Rightarrow> reading option) option \<Rightarrow> string list \<Rightarrow>
     quote_row list" where
  "get_stock_status yahoo alpha_vantage symbols =
     map (\<lambda>symb. case gather_sources yahoo alpha_vantage symb of
                   (ds, ns) \<Rightarrow> status_row symb ds ns) symbols"

section \<open>The snapshot store (utils/data\_storage.py)\<close>

text \<open>
  A row of the table \<^verbatim>\<open>stock_snapshots\<close>. The key columns \<^verbatim>\<open>timestamp\<close> (microseconds,
  naive local time) and \<^verbatim>\<open>symbol\<close> are never NULL; the three DECIMAL columns may be.
\<close>

record snapshot =
  timestamp :: int
  symbol :: string
  company :: string
  current_price :: "rat option"
  previous_close :: "rat option"
  daily_change :: "rat option"
  sources :: string

text \<open>
  The object \<^verbatim>\<open>StockDataStorage\<close>: its threshold, whether its connection still executes
  statements, and the contents of the table.
\<close>

record storage =
  price_change_threshold :: rat
  conn_open :: bool
  stock_snapshots :: "snapshot list"

subsection \<open>\<^verbatim>\<open>save_stock_data\<close>\<close>

fun sequence_sum :: "('e + 'a) list \<Rightarrow> 'e + 'a list" where
  "sequence_sum [] = Inr []"
| "sequence_sum (x # xs) =
     (case x of
        Inl e \<Rightarrow> Inl e
      | Inr v \<Rightarrow> (case sequence_sum xs of Inl e \<Rightarrow> Inl e | Inr vs \<Rightarrow> Inr (v # vs)))"

text \<open>
  \<^verbatim>\<open>df[col].str.replace(c, '').astype(float)\<close> on one element of an object column: a
  string is parsed, anything else becomes NaN under \<^verbatim>\<open>.str\<close>, which the engine stores
  as NULL.
\<close>

definition float_column :: "char \<Rightarrow> cell \<Rightarrow> py_error + rat option" where
  "float_column c v =
     (case v of
        PyStr s \<Rightarrow> map_sum id Some (py_float (str_remove c s))
      | _ \<Rightarrow> Inr None)"

text \<open>
  The engine's cast of a number to \<^verbatim>\<open>DECIMAL(w,2)\<close>: rounded to hundredths, refused
  when the result needs more than \<open>w\<close> digits.
\<close>

definition round_half_away :: "rat \<Rightarrow> int" where
  "round_half_away x = (if 0 \<le> x then \<lfloor>x + 1 / 2\<rfloor> else - \<lfloor>- x + 1 / 2\<rfloor>)"

definition to_decimal :: "nat \<Rightarrow> rat option \<Rightarrow> py_error + rat option" where
  "to_decimal w v =
     (case v of
        None \<Rightarrow> Inr None
      | Some x \<Rightarrow>
          let q = round_half_away (x * 100) in
          if \<bar>q\<bar> < 10 ^ w then Inr (Some (of_int q / 100)) else Inl ConversionException)"

definition primary_key :: "snapshot \<Rightarrow> int \<times> string" where
  "primary_key r = (timestamp r, symbol r)"

definition make_snapshot ::
    "int \<Rightarrow> quote_row \<times> rat option \<times> rat option \<times> rat option \<Rightarrow> py_error + snapshot" where
  "make_snapshot ts v =
     (case v of (row, cp, pc, dc) \<Rightarrow>
        (case to_decimal 10 cp of
           Inl e \<Rightarrow> Inl e
         | Inr cp' \<Rightarrow>
             (case to_decimal 10 pc of
                Inl e \<Rightarrow> Inl e
              | Inr pc' \<Rightarrow>
                  (case to_decimal 5 dc of
                     Inl e \<Rightarrow> Inl e
                   | Inr dc' \<Rightarrow>
                       Inr \<lparr>timestamp = ts, symbol = Symbol row, company = Company row,
                            current_price = cp', previous_close = pc', daily_change = dc',
                            sources = Sources row\<rparr>))))"

text \<open>
  The \<^verbatim>\<open>INSERT ... SELECT ... FROM df\<close>: one statement, so either every row of the frame
  is appended or none. It fails on a closed connection, on a value that does not fit its
  column, and on a repeated primary key \<^verbatim>\<open>(timestamp, symbol)\<close>.
\<close>

definition insert_snapshots ::
    "storage \<Rightarrow> int \<Rightarrow> (quote_row \<times> rat option \<times> rat option \<times> rat option) list \<Rightarrow>
     py_error + storage" where
  "insert_snapshots self ts vals =
     (if \<not> conn_open self then Inl ConnectionException
      else
        (case sequence_sum (map (make_snapshot ts) vals) of
           Inl e \<Rightarrow> Inl e
         | Inr new \<Rightarrow>
             if distinct (map primary_key (stock_snapshots self @ new))
             then Inr (self\<lparr>stock_snapshots := stock_snapshots self @ new\<rparr>)
             else Inl ConstraintException))"

text \<open>The body of the \<^verbatim>\<open>try\<close> block of \<^verbatim>\<open>save_stock_data\<close>.\<close>

definition save_body :: "storage \<Rightarrow> quote_row list \<Rightarrow> int \<Rightarrow> py_error + storage" where
  "save_body self df ts =
     (case sequence_sum (map (\<lambda>r. float_column CHR ''$'' (Current_Price r)) df) of
        Inl e \<Rightarrow> Inl e
      | Inr cps \<Rightarrow>
          (case sequence_sum (map (\<lambda>r. float_column CHR ''$'' (Previous_Close r)) df) of
             Inl e \<Rightarrow> Inl e
           | Inr pcs \<Rightarrow>
               (case sequence_sum (map (\<lambda>r. float_column CHR ''%'' (Daily_Change r)) df) of
                  Inl e \<Rightarrow> Inl e
                | Inr dcs \<Rightarrow> insert_snapshots self ts (zip df (zip cps (zip pcs dcs))))))"

text \<open>
  \<^verbatim>\<open>save_stock_data(df, timestamp)\<close>: \<open>now\<close> is the clock read when no timestamp is given.
  The method has no \<^verbatim>\<open>return\<close> and its handler does not re-raise, so the first component,
  what the caller gets, is the same on both paths.
\<close>

definition save_stock_data ::
    "storage \<Rightarrow> quote_row list \<Rightarrow> int option \<Rightarrow> int \<Rightarrow>
     (py_error + unit) \<times> storage \<times> log_entry list" where
  "save_stock_data self df ts now =
     (case save_body self df (case ts of None \<Rightarrow> now | Some t \<Rightarrow> t) of
        Inr self' \<Rightarrow> (Inr (), self', [(INFO, ''Saved stock data'')])
      | Inl e \<Rightarrow> (Inr (), self, [(ERROR, ''Error saving stock data'')]))"

subsection \<open>\<^verbatim>\<open>get_latest_data\<close>\<close>

text \<open>SQL aggregates skip NULL and are NULL over no values.\<close>

fun sql_max :: "('a::linorder) option list \<Rightarrow> 'a option" where
  "sql_max [] = None"
| "sql_max (None # vs) = sql_max vs"
| "sql_max (Some x # vs) = (case sql_max vs of None \<Rightarrow> Some x | Some m \<Rightarrow> Some (max x m))"

fun sql_min :: "('a::linorder) option list \<Rightarrow> 'a option" where
  "sql_min [] = None"
| "sql_min (None # vs) = sql_min vs"
| "sql_min (Some x # vs) = (case sql_min vs of None \<Rightarrow> Some x | Some m \<Rightarrow> Some (min x m))"

definition non_nulls :: "'a option list \<Rightarrow> 'a list" where
  "non_nulls vs = concat (map (\<lambda>v. case v of None \<Rightarrow> [] | Some x \<Rightarrow> [x]) vs)"

definition sql_avg :: "rat option list \<Rightarrow> rat option" where
  "sql_avg vs =
     (if non_nulls vs = [] then None
      else Some (sum_list (non_nulls vs) / of_nat (length (non_nulls vs))))"

text \<open>\<^verbatim>\<open>CONCAT\<close> reads NULL as the empty string; a DECIMAL prints with its two decimals.\<close>

definition decimal_text :: "rat option \<Rightarrow> string" where
  "decimal_text v = (case v of None \<Rightarrow> [] | Some x \<Rightarrow> fmt2 x)"

definition latest_row :: "snapshot \<Rightarrow> int \<times> quote_row" where
  "latest_row r =
     (timestamp r,
      \<lparr>Symbol = symbol r, Company = company r,
       Current_Price = PyStr (''$'' @ decimal_text (current_price r)),
       Previous_Close = PyStr (''$'' @ decimal_text (previous_close r)),
       Daily_Change = PyStr (decimal_text (daily_change r) @ ''%''),
       Sources = sources r\<rparr>)"

text \<open>
  The query compares each row's timestamp with the scalar \<^verbatim>\<open>MAX(timestamp)\<close>, which is
  NULL over an empty table. An exception (here: a closed connection) makes the method
  return \<^verbatim>\<open>None\<close>.
\<close>

definition get_latest_data :: "storage \<Rightarrow> (int \<times> quote_row) list option" where
  "get_latest_data self =
     (if \<not> conn_open self then None
      else
        let max_ts = sql_max (map (\<lambda>r. Some (timestamp r)) (stock_snapshots self))
        in Some (map latest_row
                 (filter (\<lambda>r. Some (timestamp r) = max_ts) (stock_snapshots self))))"

subsection \<open>The view \<^verbatim>\<open>daily_summary\<close> and \<^verbatim>\<open>get_daily_summary\<close>\<close>

definition date_of :: "int \<Rightarrow> int" where
  "date_of ts = ts div 86400000000"

record ranked =
  r_date :: int
  r_symbol :: string
  r_company :: string
  r_current_price :: "rat option"
  r_daily_change :: "rat option"
  r_sources :: string
  rn_asc :: nat
  rn_desc :: nat

definition same_partition :: "snapshot \<Rightarrow> snapshot \<Rightarrow> bool" where
  "same_partition a b =
     (date_of (timestamp a) = date_of (timestamp b) \<and> symbol a = symbol b)"

text \<open>
  \<^verbatim>\<open>ROW_NUMBER() OVER (PARTITION BY CAST(timestamp AS DATE), symbol ORDER BY timestamp)\<close>
  for the row at position \<open>i\<close> of the table: one more than the number of rows of its
  partition that are ordered before it. Rows of equal timestamp are numbered in table
  order (the engine leaves their order open; the primary key excludes them within a
  partition).
\<close>

definition row_number_asc :: "snapshot list \<Rightarrow> nat \<Rightarrow> nat" where
  "row_number_asc rows i =
     Suc (length (filter
       (\<lambda>j. same_partition (rows ! j) (rows ! i) \<and>
            (timestamp (rows ! j) < timestamp (rows ! i) \<or>
             timestamp (rows ! j) = timestamp (rows ! i) \<and> j < i))
       [0..<length rows]))"

definition row_number_desc :: "snapshot list \<Rightarrow> nat \<Rightarrow> nat" where
  "row_number_desc rows i =
     Suc (length (filter
       (\<lambda>j. same_partition (rows ! j) (rows ! i) \<and>
            (timestamp (rows ! i) < timestamp (rows ! j) \<or>
             timestamp (rows ! j) = timestamp (rows ! i) \<and> j < i))
       [0..<length rows]))"

definition ranked_row :: "snapshot list \<Rightarrow> nat \<Rightarrow> ranked" where
  "ranked_row rows i =
     \<lparr>r_date = date_of (timestamp (rows ! i)), r_symbol = symbol (rows ! i),
      r_company = company (rows ! i), r_current_price = current_price (rows ! i),
      r_daily_change = daily_change (rows ! i), r_sources = sources (rows ! i),
      rn_asc = row_number_asc rows i, rn_desc = row_number_desc rows i\<rparr>"

definition ranked_data :: "snapshot list \<Rightarrow> ranked list" where
  "ranked_data rows = map (ranked_row rows) [0..<length rows]"

record daily_rollup =
  d_date :: int
  d_symbol :: string
  d_company :: string
  opening_price :: "rat option"
  closing_price :: "rat option"
  high_price :: "rat option"
  low_price :: "rat option"
  average_price :: "rat option"
  opening_change :: "rat option"
  closing_change :: "rat option"
  d_sources :: string

definition group_key :: "ranked \<Rightarrow> int \<times> string \<times> string \<times> string" where
  "group_key r = (r_date r, r_symbol r, r_company r, r_sources r)"

definition summarise :: "int \<times> string \<times> string \<times> string \<Rightarrow> ranked list \<Rightarrow> daily_rollup" where
  "summarise k grp =
     (case k of (d, s, c, src) \<Rightarrow>
        \<lparr>d_date = d, d_symbol = s, d_company = c,
         opening_price =
           sql_max (map (\<lambda>r. if rn_asc r = 1 then r_current_price r else None) grp),
         closing_price =
           sql_max (map (\<lambda>r. if rn_desc r = 1 then r_current_price r else None) grp),
         high_price = sql_max (map r_current_price grp),
         low_price = sql_min (map r_current_price grp),
         average_price = sql_avg (map r_current_price grp),
         opening_change =
           sql_max (map (\<lambda>r. if rn_asc r = 1 then r_daily_change r else None) grp),
         closing_change =
           sql_max (map (\<lambda>r. if rn_desc r = 1 then r_daily_change r else None) grp),
         d_sources = src\<rparr>)"

text \<open>\<^verbatim>\<open>GROUP BY date, symbol, company, sources\<close>: one output row for each key.\<close>

definition daily_summary :: "snapshot list \<Rightarrow> daily_rollup list" where
  "daily_summary rows =
     (let rd = ranked_data rows in
      map (\<lambda>k. summarise k (filter (\<lambda>r. group_key r = k) rd)) (remdups (map group_key rd)))"

text \<open>
  \<^verbatim>\<open>get_daily_summary(date)\<close> selects the view's rows of one date (the date of \<open>now\<close> when
  none is given); an exception makes it return \<^verbatim>\<open>None\<close>. The method prints each number
  into a string with \<^verbatim>\<open>CONCAT\<close>; the model returns the numbers, since the text of the
  DOUBLE average is a float rendering.
\<close>

definition get_daily_summary :: "storage \<Rightarrow> int option \<Rightarrow> int \<Rightarrow> daily_rollup list option" where
  "get_daily_summary self date now =
     (if \<not> conn_open self then None
      else
        let d = date_of (case date of None \<Rightarrow> now | Some t \<Rightarrow> t)
        in Some (filter (\<lambda>g. d_date g = d) (daily_summary (stock_snapshots self))))"

subsection \<open>\<^verbatim>\<open>compare_with_previous\<close>\<close>

record cmp_row =
  c_Symbol :: string
  c_Company :: string
  c_Current_Price :: cell
  c_Previous_Close :: cell
  c_Daily_Change :: cell
  c_Sources :: string
  Previous_Price :: cell
  Price_Change :: cell
  Previous_Daily_Change :: cell
  Change_in_Daily_Change :: cell

text \<open>The copy of a current row with the four comparison columns set.\<close>

definition with_comparison :: "quote_row \<Rightarrow> cell \<Rightarrow> cell \<Rightarrow> cell \<Rightarrow> cell \<Rightarrow> cmp_row" where
  "with_comparison row pp pc pdc cdc =
     \<lparr>c_Symbol = Symbol row, c_Company = Company row, c_Current_Price = Current_Price row,
      c_Previous_Close = Previous_Close row, c_Daily_Change = Daily_Change row,
      c_Sources = Sources row,
      Previous_Price = pp, Price_Change = pc, Previous_Daily_Change = pdc,
      Change_in_Daily_Change = cdc\<rparr>"

definition bind_sum :: "'e + 'a \<Rightarrow> ('a \<Rightarrow> 'e + 'b) \<Rightarrow> 'e + 'b" where
  "bind_sum m f = (case m of Inl e \<Rightarrow> Inl e | Inr v \<Rightarrow> f v)"

definition safe_price_convert :: "cell \<Rightarrow> py_error + rat option" where
  "safe_price_convert price_str =
     (case price_str of
        PyFloat x \<Rightarrow> Inr (Some x)
      | PyStr s \<Rightarrow> map_sum id Some (py_float (str_remove CHR '','' (str_remove CHR ''$'' s)))
      | PyNone \<Rightarrow> Inr None)"

definition safe_percent_convert :: "cell \<Rightarrow> py_error + rat option" where
  "safe_percent_convert percent_str =
     (case percent_str of
        PyFloat x \<Rightarrow> Inr (Some x)
      | PyStr s \<Rightarrow> map_sum id Some (py_float (str_remove CHR '','' (str_remove CHR ''%'' s)))
      | PyNone \<Rightarrow> Inr None)"

text \<open>The four conversions of one loop iteration, in the order the code makes them.\<close>

definition convert_values ::
    "quote_row \<Rightarrow> quote_row \<Rightarrow> py_error + (rat option \<times> rat option \<times> rat option \<times> rat option)" where
  "convert_values prev_row row =
     bind_sum (safe_price_convert (Current_Price prev_row)) (\<lambda>prev_price.
     bind_sum (safe_percent_convert (Daily_Change prev_row)) (\<lambda>prev_daily_change.
     bind_sum (safe_price_convert (Current_Price row)) (\<lambda>cur_price.
     bind_sum (safe_percent_convert (Daily_Change row)) (\<lambda>cur_daily_change.
       Inr (prev_price, cur_price, prev_daily_change, cur_daily_change)))))"

text \<open>
  One iteration of the loop over the current rows. An exception inside the inner
  \<^verbatim>\<open>try\<close> is logged and the loop goes on: the row keeps its four \<^verbatim>\<open>None\<close>s. The log
  lines of the comparison and of the analysis are not part of the model.
\<close>

definition compare_row :: "quote_row list \<Rightarrow> quote_row \<Rightarrow> cmp_row" where
  "compare_row previous_df row =
     (case filter (\<lambda>p. Symbol p = Symbol row) previous_df of
        [] \<Rightarrow> with_comparison row PyNone PyNone PyNone PyNone
      | prev_row # _ \<Rightarrow>
          (case convert_values prev_row row of
             Inl e \<Rightarrow> with_comparison row PyNone PyNone PyNone PyNone
           | Inr (Some prev_price, Some cur_price, Some prev_daily_change, Some cur_daily_change) \<Rightarrow>
               with_comparison row
                 (PyStr (''$'' @ fmt2 prev_price))
                 (PyStr (''$'' @ fmt2 (cur_price - prev_price)))
                 (PyStr (fmt2 prev_daily_change @ ''%''))
                 (PyStr (fmt2 (cur_daily_change - prev_daily_change) @ ''%''))
           | Inr _ \<Rightarrow> with_comparison row PyNone PyNone PyNone PyNone))"

definition compare_with_previous :: "storage \<Rightarrow> quote_row list \<Rightarrow> cmp_row list option" where
  "compare_with_previous self current_df =
     (case get_latest_data self of
        None \<Rightarrow> None
      | Some previous_df \<Rightarrow> Some (map (compare_row (map snd previous_df)) current_df))"

subsection \<open>\<^verbatim>\<open>analyze_price_changes\<close> and \<^verbatim>\<open>generate_report\<close>\<close>

record price_alert =
  pa_symbol :: string
  pa_company :: string
  pa_current_price :: rat
  pa_previous_price :: rat
  change_pct :: rat
  direction :: string

record daily_alert =
  da_symbol :: string
  da_company :: string
  current_daily_change :: rat
  previous_daily_change :: rat
  change_diff :: rat

text \<open>
  The dictionary that the analysis returns; the four counts of its \<^verbatim>\<open>summary\<close> entry are
  fields of the same record.
\<close>

record alerts =
  significant_changes :: "price_alert list"
  daily_change_alerts :: "daily_alert list"
  total_symbols :: nat
  n_significant_changes :: nat
  positive_changes :: nat
  negative_changes :: nat

definition isna :: "cell \<Rightarrow> bool" where
  "isna v = (v = PyNone)"

text \<open>
  \<^verbatim>\<open>float(v.replace(c, ''))\<close>: only a string has \<^verbatim>\<open>replace\<close>; only the one character is
  removed before parsing.
\<close>

definition float_of_text :: "char \<Rightarrow> cell \<Rightarrow> py_error + rat" where
  "float_of_text c v =
     (case v of
        PyStr s \<Rightarrow> py_float (str_remove c s)
      | _ \<Rightarrow> Inl AttributeError)"

definition py_div :: "rat \<Rightarrow> rat \<Rightarrow> py_error + rat" where
  "py_div a b = (if b = 0 then Inl ZeroDivisionError else Inr (a / b))"

definition price_step :: "rat \<Rightarrow> cmp_row \<Rightarrow> alerts \<Rightarrow> py_error + alerts" where
  "price_step thr row a =
     bind_sum (float_of_text CHR ''$'' (c_Current_Price row)) (\<lambda>cur_price.
     bind_sum (float_of_text CHR ''$'' (Previous_Price row)) (\<lambda>prev_price.
     bind_sum (py_div (cur_price - prev_price) prev_price) (\<lambda>quot.
       let price_change_pct = quot * 100 in
       if thr \<le> \<bar>price_change_pct\<bar> then
         Inr (a\<lparr>significant_changes := significant_changes a @
                   [\<lparr>pa_symbol = c_Symbol row, pa_company = c_Company row,
                     pa_current_price = cur_price, pa_previous_price = prev_price,
                     change_pct = price_change_pct,
                     direction = (if 0 < price_change_pct then ''increase'' else ''decrease'')\<rparr>],
                 n_significant_changes := n_significant_changes a + 1,
                 positive_changes :=
                   (if 0 < price_change_pct then positive_changes a + 1 else positive_changes a),
                 negative_changes :=
                   (if 0 < price_change_pct then negative_changes a else negative_changes a + 1)\<rparr>)
       else Inr a)))"

definition daily_step :: "rat \<Rightarrow> cmp_row \<Rightarrow> alerts \<Rightarrow> py_error + alerts" where
  "daily_step thr row a =
     (if isna (Change_in_Daily_Change row) then Inr a
      else
        bind_sum (float_of_text CHR ''%'' (Change_in_Daily_Change row)) (\<lambda>daily_change_diff.
          if thr \<le> \<bar>daily_change_diff\<bar> then
            bind_sum (float_of_text CHR ''%'' (c_Daily_Change row)) (\<lambda>cur.
            bind_sum (float_of_text CHR ''%'' (Previous_Daily_Change row)) (\<lambda>prev.
              Inr (a\<lparr>daily_change_alerts := daily_change_alerts a @
                        [\<lparr>da_symbol = c_Symbol row, da_company = c_Company row,
                          current_daily_change = cur, previous_daily_change = prev,
                          change_diff = daily_change_diff\<rparr>]\<rparr>)))
          else Inr a))"

text \<open>One iteration of the loop: a raised exception leaves the loop.\<close>

definition analyze_row :: "rat \<Rightarrow> cmp_row \<Rightarrow> alerts \<Rightarrow> py_error + alerts" where
  "analyze_row thr row a =
     (if isna (Previous_Price row) \<or> isna (c_Current_Price row) then Inr a
      else bind_sum (price_step thr row a) (daily_step thr row))"

fun analyze_rows :: "rat \<Rightarrow> cmp_row list \<Rightarrow> alerts \<Rightarrow> py_error + alerts" where
  "analyze_rows thr [] a = Inr a"
| "analyze_rows thr (row # rest) a = bind_sum (analyze_row thr row a) (analyze_rows thr rest)"

definition initial_alerts :: "cmp_row list \<Rightarrow> alerts" where
  "initial_alerts comparison_df =
     \<lparr>significant_changes = [], daily_change_alerts = [],
      total_symbols = length comparison_df, n_significant_changes = 0,
      positive_changes = 0, negative_changes = 0\<rparr>"

text \<open>
  The whole method is one \<^verbatim>\<open>try\<close>: any exception of the loop is logged and the method
  returns \<^verbatim>\<open>None\<close>.
\<close>

definition analyze_price_changes :: "storage \<Rightarrow> cmp_row list \<Rightarrow> alerts option" where
  "analyze_price_changes self comparison_df =
     (case analyze_rows (price_change_threshold self) comparison_df
             (initial_alerts comparison_df) of
        Inl e \<Rightarrow> None
      | Inr a \<Rightarrow> Some a)"

text \<open>The arrows of the report, as the bytes of their UTF-8 encoding.\<close>

definition arrow_up :: string where
  "arrow_up = [CHR 0xE2, CHR 0x86, CHR 0x91]"

definition arrow_down :: string where
  "arrow_down = [CHR 0xE2, CHR 0x86, CHR 0x93]"

definition arrow_right :: string where
  "arrow_right = [CHR 0xE2, CHR 0x86, CHR 0x92]"

definition price_line :: "price_alert \<Rightarrow> string" where
  "price_line change =
     (if direction change = ''increase'' then arrow_up else arrow_down) @ '' '' @
     pa_symbol change @ '' ('' @ pa_company change @ ''): $'' @
     fmt2 (pa_previous_price change) @ '' '' @ arrow_right @ '' $'' @
     fmt2 (pa_current_price change) @ '' ('' @ fmt2 (change_pct change) @ ''%)''"

definition daily_line :: "daily_alert \<Rightarrow> string" where
  "daily_line alert =
     (if 0 < change_diff alert then arrow_up else arrow_down) @ '' '' @
     da_symbol alert @ '' ('' @ da_company alert @ ''): Daily Change: '' @
     fmt2 (previous_daily_change alert) @ ''% '' @ arrow_right @ '' '' @
     fmt2 (current_daily_change alert) @ ''% (Change: '' @
     fmt2 (change_diff alert) @ ''%)''"

definition no_changes_text :: string where
  "no_changes_text = ''No significant changes detected.''"

definition report_lines :: "alerts \<Rightarrow> string list" where
  "report_lines a =
     [CHR 0x0A # ''Price Movement Analysis Report'',
      replicate 50 CHR ''='',
      CHR 0x0A # ''Summary:'',
      ''Total Symbols Analyzed: '' @ show_nat (total_symbols a),
      ''Significant Changes Detected: '' @ show_nat (n_significant_changes a),
      ''Positive Changes: '' @ show_nat (positive_changes a),
      ''Negative Changes: '' @ show_nat (negative_changes a)] @
     (if significant_changes a \<noteq> [] then
        [CHR 0x0A # ''Significant Price Changes:'', replicate 50 CHR ''-''] @
        map price_line (significant_changes a)
      else []) @
     (if daily_change_alerts a \<noteq> [] then
        [CHR 0x0A # ''Significant Daily Change Changes:'', replicate 50 CHR ''-''] @
        map daily_line (daily_change_alerts a)
      else [])"

text \<open>
  \<^verbatim>\<open>if not alerts\<close> tests the dictionary that \<^verbatim>\<open>analyze_price_changes\<close> returned: it has
  three keys whenever it is a dictionary, so the test holds only for \<^verbatim>\<open>None\<close>. Nothing
  after that test can raise on the values of the model, so the handler that returns
  \<^verbatim>\<open>"Error generating report."\<close> has no branch here.
\<close>

definition generate_report :: "storage \<Rightarrow> cmp_row list \<Rightarrow> string" where
  "generate_report self comparison_df =
     (case analyze_price_changes self comparison_df of
        None \<Rightarrow> no_changes_text
      | Some a \<Rightarrow> join [CHR 0x0A] (report_lines a))"

section \<open>Notions used to state the properties\<close>

text \<open>
  The values that contribute to an average: the readings' values that are present and
  nonzero. \<open>non_null\<close> is the set the specification names (present, zero or not).
\<close>

definition contributing :: "(reading \<Rightarrow> rat option) \<Rightarrow> reading option list \<Rightarrow> rat list" where
  "contributing field ds =
     concat (map (\<lambda>d. case Option.bind d field of
                        Some x \<Rightarrow> if x \<noteq> 0 then [x] else []
                      | None \<Rightarrow> []) ds)"

definition non_null :: "(reading \<Rightarrow> rat option) \<Rightarrow> reading option list \<Rightarrow> rat list" where
  "non_null field ds =
     concat (map (\<lambda>d. case Option.bind d field of Some x \<Rightarrow> [x] | None \<Rightarrow> []) ds)"

definition mean :: "rat list \<Rightarrow> rat" where
  "mean xs = sum_list xs / of_nat (length xs)"

text \<open>Whether the four comparison columns of a record are all undefined, or all defined.\<close>

definition comparison_unset :: "cmp_row \<Rightarrow> bool" where
  "comparison_unset c =
     (Previous_Price c = PyNone \<and> Price_Change c = PyNone \<and>
      Previous_Daily_Change c = PyNone \<and> Change_in_Daily_Change c = PyNone)"

definition comparison_set :: "cmp_row \<Rightarrow> bool" where
  "comparison_set c =
     (Previous_Price c \<noteq> PyNone \<and> Price_Change c \<noteq> PyNone \<and>
      Previous_Daily_Change c \<noteq> PyNone \<and> Change_in_Daily_Change c \<noteq> PyNone)"

text \<open>
  The significant-price-change alerts the specification asks of one record: none when a
  price is missing, and otherwise one exactly when the percentage recomputed from the two
  prices reaches the threshold in absolute value.
\<close>

definition expected_price_alerts :: "rat \<Rightarrow> cmp_row \<Rightarrow> price_alert list" where
  "expected_price_alerts thr row =
     (if isna (Previous_Price row) \<or> isna (c_Current_Price row) then []
      else
        (case (float_of_text CHR ''$'' (c_Current_Price row),
               float_of_text CHR ''$'' (Previous_Price row)) of
           (Inr c, Inr p) \<Rightarrow>
             if p \<noteq> 0 \<and> thr \<le> \<bar>((c - p) / p) * 100\<bar> then
               [\<lparr>pa_symbol = c_Symbol row, pa_company = c_Company row,
                 pa_current_price = c, pa_previous_price = p,
                 change_pct = ((c - p) / p) * 100,
                 direction = (if 0 < ((c - p) / p) * 100 then ''increase'' else ''decrease'')\<rparr>]
             else []
         | _ \<Rightarrow> []))"

text \<open>
  A record the analysis can read: a price is missing (the record is skipped), or both
  prices are numbers behind a \<^verbatim>\<open>$\<close>, the previous one nonzero, and the daily-change
  columns that the loop reads are numbers behind a \<^verbatim>\<open>%\<close>.
\<close>

definition daily_fields_ok :: "rat \<Rightarrow> cmp_row \<Rightarrow> bool" where
  "daily_fields_ok thr row =
     (isna (Change_in_Daily_Change row) \<or>
      (case float_of_text CHR ''%'' (Change_in_Daily_Change row) of
         Inl e \<Rightarrow> False
       | Inr d \<Rightarrow>
           \<bar>d\<bar> < thr \<or>
           (\<not> isl (float_of_text CHR ''%'' (c_Daily_Change row)) \<and>
            \<not> isl (float_of_text CHR ''%'' (Previous_Daily_Change row)))))"

definition analyzable :: "rat \<Rightarrow> cmp_row \<Rightarrow> bool" where
  "analyzable thr row =
     (isna (Previous_Price row) \<or> isna (c_Current_Price row) \<or>
      (case (float_of_text CHR ''$'' (c_Current_Price row),
             float_of_text CHR ''$'' (Previous_Price row)) of
         (Inr c, Inr p) \<Rightarrow> p \<noteq> 0 \<and> daily_fields_ok thr row
       | _ \<Rightarrow> False))"

text \<open>
  The rows of one calendar date and symbol: a partition of the view's window functions.
\<close>

definition partition_rows :: "snapshot list \<Rightarrow> int \<Rightarrow> string \<Rightarrow> snapshot list" where
  "partition_rows rows d s = filter (\<lambda>r. date_of (timestamp r) = d \<and> symbol r = s) rows"

definition partition_indices :: "snapshot list \<Rightarrow> int \<Rightarrow> string \<Rightarrow> nat list" where
  "partition_indices rows d s =
     filter (\<lambda>i. date_of (timestamp (rows ! i)) = d \<and> symbol (rows ! i) = s) [0..<length rows]"

text \<open>The prices of a partition that are not NULL.\<close>

definition partition_prices :: "snapshot list \<Rightarrow> int \<Rightarrow> string \<Rightarrow> rat list" where
  "partition_prices rows d s = non_nulls (map current_price (partition_rows rows d s))"

text \<open>The text of a non-negative amount of \<open>n\<close> hundredths.\<close>

definition cents_text :: "nat \<Rightarrow> string" where
  "cents_text n = show_nat (n div 100) @ ''.'' @
                  [digit_char (n mod 100 div 10), digit_char (n mod 10)]"

subsection \<open>Example data\<close>

definition example_quote :: "string \<Rightarrow> cell \<Rightarrow> cell \<Rightarrow> quote_row" where
  "example_quote symb p d =
     \<lparr>Symbol = symb, Company = ''Acme'', Current_Price = p,
      Previous_Close = PyStr ''$100.00'', Daily_Change = d, Sources = ''Yahoo Finance''\<rparr>"

definition example_snapshot :: "int \<Rightarrow> string \<Rightarrow> rat \<Rightarrow> string \<Rightarrow> snapshot" where
  "example_snapshot ts symb p src =
     \<lparr>timestamp = ts, symbol = symb, company = ''Acme'', current_price = Some p,
      previous_close = Some 100, daily_change = Some 1, sources = src\<rparr>"

definition example_store :: "snapshot list \<Rightarrow> storage" where
  "example_store rows = \<lparr>price_change_threshold = 5, conn_open = True, stock_snapshots = rows\<rparr>"

text \<open>A comparison record for ACME with the given current and previous price texts.\<close>

definition example_comparison :: "string \<Rightarrow> string \<Rightarrow> cmp_row" where
  "example_comparison cur prev =
     with_comparison (example_quote ''ACME'' (PyStr cur) (PyStr ''1.00%''))
       (PyStr prev) (PyStr ''$0.00'') (PyStr ''1.00%'') (PyStr ''0.00%'')"

section \<open>Evaluation on concrete inputs\<close>

text \<open>The defining equations, grouped for evaluating the model by simplification.\<close>

lemmas text_defs = py_float_def strip_def is_space_def unsigned_float_def is_digit_def
  digits_val_def digit_val_def fmt2_def round_half_even_def show_nat.simps digit_char_def
  str_remove_def Let_def

lemmas store_defs = save_stock_data_def save_body_def float_column_def insert_snapshots_def
  make_snapshot_def to_decimal_def round_half_away_def primary_key_def get_latest_data_def
  latest_row_def decimal_text_def

lemmas compare_defs = compare_with_previous_def compare_row_def convert_values_def
  bind_sum_def safe_price_convert_def safe_percent_convert_def with_comparison_def

lemmas analyze_defs = analyze_price_changes_def initial_alerts_def analyze_row_def
  price_step_def daily_step_def float_of_text_def py_div_def isna_def

lemmas example_defs = example_quote_def example_snapshot_def example_store_def
  example_comparison_def

lemmas report_defs = generate_report_def report_lines_def no_changes_text_def

lemmas notion_defs = expected_price_alerts_def analyzable_def daily_fields_ok_def
  comparison_set_def comparison_unset_def

lemmas summary_defs = get_daily_summary_def daily_summary_def ranked_data_def ranked_row_def
  row_number_asc_def row_number_desc_def same_partition_def date_of_def group_key_def
  summarise_def sql_avg_def Let_def

section \<open>Properties of the aggregation\<close>

lemma collect_prices_contributing:
  "collect_prices ds ps cs = (ps @ contributing price ds, cs @ contributing prev_close ds)"
  by (induction ds arbitrary: ps cs)
     (auto simp: contributing_def split: option.splits)

lemma calculate_average_price_cases:
  "calculate_average_price xs =
     (if contributing price xs = [] then
        ((None, None), [(WARNING, ''No valid prices found in any data source'')])
      else if contributing prev_close xs = [] then
        ((None, None), [(WARNING, ''No valid previous close prices found in any data source'')])
      else ((Some (mean (contributing price xs)), Some (mean (contributing prev_close xs))),
            [(DEBUG, ''Calculated average price'')]))"
  by (simp add: calculate_average_price_def collect_prices_contributing mean_def)

lemma status_row_Symbol: "Symbol (status_row symb rs ns) = symb"
  by (simp add: status_row_def Let_def split: prod.splits)

lemma get_stock_status_symbols:
  "map Symbol (get_stock_status yahoo alpha_vantage symbols) = symbols"
  by (induction symbols)
     (simp_all add: get_stock_status_def status_row_Symbol split: prod.splits)

lemma status_row_unavailable:
  assumes "rs \<noteq> []"
    and "contributing price (map Some rs) = [] \<or> contributing prev_close (map Some rs) = []"
  shows "Current_Price (status_row symb rs ns) = PyStr ''N/A'' \<and>
         Previous_Close (status_row symb rs ns) = PyStr ''N/A'' \<and>
         Daily_Change (status_row symb rs ns) = PyStr ''N/A''"
  using assms
  by (auto simp: status_row_def calculate_average_price_cases truthy_def
      calculate_daily_change_def)

text \<open>
  C4 (as amended). \<^verbatim>\<open>calculate_average_price\<close> returns the arithmetic means of the price
  values and of the previous-close values that are present and nonzero. When either of
  the two lists is empty it returns no averages and logs one warning; the caller
  \<^verbatim>\<open>get_stock_status\<close> then still emits the symbol's row, with \<^verbatim>\<open>N/A\<close> in the price,
  previous-close and daily-change columns, and it emits one row for every symbol.
\<close>

theorem calculate_average_price_mean:
  "(contributing price ds \<noteq> [] \<and> contributing prev_close ds \<noteq> [] \<longrightarrow>
      fst (calculate_average_price ds) =
        (Some (mean (contributing price ds)), Some (mean (contributing prev_close ds)))) \<and>
   (contributing price ds = [] \<or> contributing prev_close ds = [] \<longrightarrow>
      fst (calculate_average_price ds) = (None, None) \<and>
      (\<exists>m. snd (calculate_average_price ds) = [(WARNING, m)])) \<and>
   (rs \<noteq> [] \<and> (contributing price (map Some rs) = [] \<or>
                contributing prev_close (map Some rs) = []) \<longrightarrow>
      Current_Price (status_row symb rs ns) = PyStr ''N/A'' \<and>
      Previous_Close (status_row symb rs ns) = PyStr ''N/A'' \<and>
      Daily_Change (status_row symb rs ns) = PyStr ''N/A'') \<and>
   map Symbol (get_stock_status yahoo alpha_vantage symbols) = symbols"
  using status_row_unavailable [of rs symb ns] get_stock_status_symbols [of yahoo alpha_vantage symbols]
  by (auto simp: calculate_average_price_cases)

theorem calculate_average_price_mean_witness:
  "fst (calculate_average_price
         [Some \<lparr>price = Some 101, prev_close = Some 100, company_name = ''Acme''\<rparr>,
          None,
          Some \<lparr>price = Some 102, prev_close = None, company_name = ''N/A''\<rparr>])
     = (Some (203 / 2), Some 100) \<and>
   fst (calculate_average_price
         [Some \<lparr>price = None, prev_close = Some 100, company_name = ''Acme''\<rparr>])
     = (None, None) \<and>
   Current_Price (status_row ''ACME''
         [\<lparr>price = None, prev_close = Some 100, company_name = ''Acme''\<rparr>] [''Yahoo Finance''])
     = PyStr ''N/A''"
  using calculate_average_price_mean
    [of "[Some \<lparr>price = Some 101, prev_close = Some 100, company_name = ''Acme''\<rparr>,
          None,
          Some \<lparr>price = Some 102, prev_close = None, company_name = ''N/A''\<rparr>]"
        "[\<lparr>price = None, prev_close = Some 100, company_name = ''Acme''\<rparr>]"
        "''ACME''" "[''Yahoo Finance'']"]
    calculate_average_price_mean
    [of "[Some \<lparr>price = None, prev_close = Some 100, company_name = ''Acme''\<rparr>]"]
  by (simp add: contributing_def mean_def)

text \<open>
  The claim as stated fails twice. A reading with price 0 is present, yet it is left out
  of the mean: the code answers 10 where the mean of the non-null prices 0 and 10 is 5.
  And a symbol whose only reading has no price is not skipped: \<^verbatim>\<open>get_stock_status\<close>
  emits its row.
\<close>

theorem calculate_average_price_counterexample:
  "fst (calculate_average_price
         [Some \<lparr>price = Some 0, prev_close = Some 10, company_name = ''Acme''\<rparr>,
          Some \<lparr>price = Some 10, prev_close = Some 10, company_name = ''Acme''\<rparr>])
     = (Some 10, Some 10) \<and>
   mean (non_null price
         [Some \<lparr>price = Some 0, prev_close = Some 10, company_name = ''Acme''\<rparr>,
          Some \<lparr>price = Some 10, prev_close = Some 10, company_name = ''Acme''\<rparr>]) = 5 \<and>
   non_null price [Some \<lparr>price = None, prev_close = Some 10, company_name = ''Acme''\<rparr>] = [] \<and>
   get_stock_status
       (\<lambda>s. Some \<lparr>price = None, prev_close = Some 10, company_name = ''Acme''\<rparr>) None [''ACME'']
     = [\<lparr>Symbol = ''ACME'', Company = ''Acme'', Current_Price = PyStr ''N/A'',
         Previous_Close = PyStr ''N/A'', Daily_Change = PyStr ''N/A'',
         Sources = ''Yahoo Finance''\<rparr>]"
  by (simp add: calculate_average_price_def non_null_def mean_def get_stock_status_def
      gather_sources_def status_row_def calculate_daily_change_def truthy_def)

text \<open>
  C9 (as amended). \<^verbatim>\<open>calculate_daily_change\<close> returns
  \<open>((current_price - previous_close) / previous_close) * 100\<close> when both values are present
  and both are nonzero. It returns no value when the previous close is absent or zero,
  and also when the current price is absent or zero; no division by zero is reached.
\<close>

theorem calculate_daily_change_formula:
  "(c \<noteq> 0 \<and> p \<noteq> 0 \<longrightarrow>
      fst (calculate_daily_change (Some c) (Some p)) = Some (((c - p) / p) * 100)) \<and>
   (prv = None \<or> prv = Some 0 \<longrightarrow> fst (calculate_daily_change cur prv) = None) \<and>
   (cur = None \<or> cur = Some 0 \<longrightarrow> fst (calculate_daily_change cur prv) = None)"
  by (auto simp: calculate_daily_change_def truthy_def)

theorem calculate_daily_change_formula_witness:
  "fst (calculate_daily_change (Some 106) (Some 100)) = Some 6 \<and>
   fst (calculate_daily_change (Some 106) (Some 0)) = None \<and>
   fst (calculate_daily_change None (Some 100)) = None"
  using calculate_daily_change_formula [of 106 100 "Some 0" "Some 106"]
    calculate_daily_change_formula [of 106 100 "Some 100" None]
  by simp

text \<open>
  The claim as stated fails for a current price of 0 with a previous close of 10: both
  are present and the divisor is nonzero, the formula gives -100, the code gives no value.
\<close>

theorem calculate_daily_change_counterexample:
  "fst (calculate_daily_change (Some 0) (Some 10)) \<noteq> Some (((0 - 10) / 10) * 100)"
  by (simp add: calculate_daily_change_def truthy_def)


section \<open>Properties of the snapshot store\<close>

lemma save_body_closed: "\<not> conn_open self \<Longrightarrow> \<exists>e. save_body self df ts = Inl e"
  by (simp add: save_body_def insert_snapshots_def split: sum.splits)

text \<open>
  C1 (as amended). A failure of the storage write during \<^verbatim>\<open>save_stock_data\<close> is caught
  inside the method: the whole batch is dropped (the table is unchanged), one error is
  logged, and the method returns normally, so no error reaches the caller. This holds in
  particular when the connection is closed.
\<close>

theorem save_stock_data_swallows_failure:
  "fst (save_stock_data self df ts now) = Inr () \<and>
   (save_body self df (case ts of None \<Rightarrow> now | Some t \<Rightarrow> t) = Inl e \<longrightarrow>
      save_stock_data self df ts now = (Inr (), self, [(ERROR, ''Error saving stock data'')])) \<and>
   (\<not> conn_open self \<longrightarrow>
      save_stock_data self df ts now = (Inr (), self, [(ERROR, ''Error saving stock data'')]))"
proof -
  have "save_stock_data self df ts now = (Inr (), self, [(ERROR, ''Error saving stock data'')])"
    if "\<not> conn_open self"
    using save_body_closed [OF that, of df "case ts of None \<Rightarrow> now | Some t \<Rightarrow> t"]
    by (auto simp: save_stock_data_def)
  then show ?thesis
    by (auto simp: save_stock_data_def split: sum.splits)
qed

theorem save_stock_data_swallows_failure_witness:
  "save_body (example_store [example_snapshot 1000 ''ACME'' 100 ''Yahoo Finance''])
       [example_quote ''ACME'' (PyStr ''$101.00'') (PyStr ''1.00%'')] 1000
     = Inl ConstraintException \<and>
   save_stock_data (example_store [example_snapshot 1000 ''ACME'' 100 ''Yahoo Finance''])
       [example_quote ''ACME'' (PyStr ''$101.00'') (PyStr ''1.00%'')] (Some 1000) 0
     = (Inr (), example_store [example_snapshot 1000 ''ACME'' 100 ''Yahoo Finance''],
        [(ERROR, ''Error saving stock data'')]) \<and>
   save_stock_data ((example_store [])\<lparr>conn_open := False\<rparr>)
       [example_quote ''ACME'' (PyStr ''$101.00'') (PyStr ''1.00%'')] None 2000
     = (Inr (), (example_store [])\<lparr>conn_open := False\<rparr>,
        [(ERROR, ''Error saving stock data'')])"
proof -
  have fails: "save_body (example_store [example_snapshot 1000 ''ACME'' 100 ''Yahoo Finance''])
       [example_quote ''ACME'' (PyStr ''$101.00'') (PyStr ''1.00%'')]
       (case Some 1000 of None \<Rightarrow> 0 | Some t \<Rightarrow> t)
     = Inl ConstraintException"
    by (simp add: text_defs store_defs compare_defs analyze_defs example_defs notion_defs
        report_defs)
  have closed: "\<not> conn_open ((example_store [])\<lparr>conn_open := False\<rparr>)"
    by simp
  show ?thesis
    using fails closed
      save_stock_data_swallows_failure
        [of "example_store [example_snapshot 1000 ''ACME'' 100 ''Yahoo Finance'']"
            "[example_quote ''ACME'' (PyStr ''$101.00'') (PyStr ''1.00%'')]" "Some 1000" 0
            ConstraintException]
      save_stock_data_swallows_failure
        [of "(example_store [])\<lparr>conn_open := False\<rparr>"
            "[example_quote ''ACME'' (PyStr ''$101.00'') (PyStr ''1.00%'')]" None 2000]
    by simp
qed

text \<open>
  The claim as stated fails: inserting a row whose key \<^verbatim>\<open>(timestamp, symbol)\<close> is already
  in the table is refused by the engine, and \<^verbatim>\<open>save_stock_data\<close> still returns normally
  with the table as it was.
\<close>

theorem save_stock_data_counterexample:
  "insert_snapshots (example_store [example_snapshot 1000 ''ACME'' 100 ''Yahoo Finance'']) 1000
       [(example_quote ''ACME'' (PyStr ''$101.00'') (PyStr ''1.00%''), Some 101, Some 100, Some 1)]
     = Inl ConstraintException \<and>
   fst (save_stock_data (example_store [example_snapshot 1000 ''ACME'' 100 ''Yahoo Finance''])
       [example_quote ''ACME'' (PyStr ''$101.00'') (PyStr ''1.00%'')] (Some 1000) 0)
     = Inr () \<and>
   stock_snapshots (fst (snd
     (save_stock_data (example_store [example_snapshot 1000 ''ACME'' 100 ''Yahoo Finance''])
       [example_quote ''ACME'' (PyStr ''$101.00'') (PyStr ''1.00%'')] (Some 1000) 0)))
     = [example_snapshot 1000 ''ACME'' 100 ''Yahoo Finance'']"
  by (simp add: text_defs store_defs compare_defs analyze_defs example_defs notion_defs
        report_defs)

text \<open>
  Saving keeps the primary key: no two rows of the table share \<^verbatim>\<open>(timestamp, symbol)\<close>.
\<close>

lemma save_stock_data_keeps_primary_key:
  assumes "distinct (map primary_key (stock_snapshots self))"
  shows "distinct (map primary_key (stock_snapshots (fst (snd (save_stock_data self df ts now)))))"
  using assms
  by (auto simp: save_stock_data_def save_body_def insert_snapshots_def
      split: sum.splits if_splits)

lemma sql_max_Some:
  "sql_max (map (\<lambda>r. Some (f r)) xs) = (if xs = [] then None else Some (Max (f ` set xs)))"
  by (induction xs) (auto simp: max_def Max_insert split: option.splits)

text \<open>
  C2 (as amended). On a working connection \<^verbatim>\<open>get_latest_data\<close> returns exactly the rows
  whose timestamp is the maximum present in the table, in table order; over an empty
  table that is the empty frame, not \<^verbatim>\<open>None\<close>. It returns \<^verbatim>\<open>None\<close> only when the query
  fails.
\<close>

theorem get_latest_data_rows:
  "(conn_open self \<longrightarrow>
      get_latest_data self =
        Some (map latest_row
               (filter (\<lambda>r. \<forall>r' \<in> set (stock_snapshots self). timestamp r' \<le> timestamp r)
                  (stock_snapshots self)))) \<and>
   (conn_open self \<and> stock_snapshots self = [] \<longrightarrow> get_latest_data self = Some []) \<and>
   (\<not> conn_open self \<longrightarrow> get_latest_data self = None)"
proof -
  let ?rows = "stock_snapshots self"
  have "filter (\<lambda>r. Some (timestamp r) = sql_max (map (\<lambda>r. Some (timestamp r)) ?rows)) ?rows =
        filter (\<lambda>r. \<forall>r' \<in> set ?rows. timestamp r' \<le> timestamp r) ?rows"
  proof (rule filter_cong [OF refl])
    fix r assume r: "r \<in> set ?rows"
    then have ne: "?rows \<noteq> []" by auto
    have "(timestamp r = Max (timestamp ` set ?rows)) =
          (\<forall>r' \<in> set ?rows. timestamp r' \<le> timestamp r)"
      using r by (auto intro!: Max_eqI [symmetric] Max_ge)
    with ne show "(Some (timestamp r) = sql_max (map (\<lambda>r. Some (timestamp r)) ?rows)) =
          (\<forall>r' \<in> set ?rows. timestamp r' \<le> timestamp r)"
      by (auto simp: sql_max_Some)
  qed
  then show ?thesis
    by (simp add: get_latest_data_def)
qed

theorem get_latest_data_rows_witness:
  "get_latest_data (example_store
       [example_snapshot 1000 ''ACME'' 100 ''Yahoo Finance'',
        example_snapshot 2000 ''ACME'' 106 ''Yahoo Finance'',
        example_snapshot 2000 ''BETA'' 50 ''Yahoo Finance''])
     = Some [latest_row (example_snapshot 2000 ''ACME'' 106 ''Yahoo Finance''),
             latest_row (example_snapshot 2000 ''BETA'' 50 ''Yahoo Finance'')] \<and>
   get_latest_data (example_store []) = Some [] \<and>
   get_latest_data ((example_store [])\<lparr>conn_open := False\<rparr>) = None"
  using get_latest_data_rows [of "example_store
       [example_snapshot 1000 ''ACME'' 100 ''Yahoo Finance'',
        example_snapshot 2000 ''ACME'' 106 ''Yahoo Finance'',
        example_snapshot 2000 ''BETA'' 50 ''Yahoo Finance'']"]
    get_latest_data_rows [of "example_store []"]
    get_latest_data_rows [of "(example_store [])\<lparr>conn_open := False\<rparr>"]
  by (simp add: example_store_def example_snapshot_def)

text \<open>
  The claim as stated fails on the empty table: the connection works, there is no row,
  and the result is the empty frame rather than \<^verbatim>\<open>None\<close>.
\<close>

theorem get_latest_data_counterexample:
  "conn_open (example_store []) \<and> stock_snapshots (example_store []) = [] \<and>
   get_latest_data (example_store []) \<noteq> None"
  by (simp add: example_store_def get_latest_data_def)

section \<open>Properties of the comparison\<close>

lemma compare_row_all_or_nothing:
  "comparison_unset (compare_row prev row) \<or> comparison_set (compare_row prev row)"
  by (auto simp: compare_row_def with_comparison_def comparison_unset_def comparison_set_def
      split: list.splits sum.splits option.splits prod.splits)

lemma compare_row_None:
  assumes "filter (\<lambda>p. Symbol p = Symbol row) prev = prev_row # rest"
    and "safe_price_convert (Current_Price prev_row) = Inr None \<or>
         safe_price_convert (Current_Price row) = Inr None \<or>
         safe_percent_convert (Daily_Change prev_row) = Inr None \<or>
         safe_percent_convert (Daily_Change row) = Inr None"
  shows "comparison_unset (compare_row prev row)"
  using assms
  by (auto simp: compare_row_def with_comparison_def comparison_unset_def convert_values_def
      bind_sum_def split: list.splits sum.splits option.splits prod.splits)

text \<open>
  C10. \<^verbatim>\<open>compare_with_previous\<close> returns one record for each current row, and sets the
  four comparison columns of a record all or none. If a previous row of the symbol exists
  and any one of the four conversions (previous price, current price, previous daily
  change, current daily change) yields \<^verbatim>\<open>None\<close>, none of the four columns is set, whatever
  the other conversions gave.
\<close>

theorem compare_all_or_nothing:
  assumes "compare_with_previous self current_df = Some out" and "i < length current_df"
  shows "length out = length current_df \<and>
         (comparison_unset (out ! i) \<or> comparison_set (out ! i)) \<and>
         (\<forall>latest prev_row rest.
            get_latest_data self = Some latest \<and>
            filter (\<lambda>p. Symbol p = Symbol (current_df ! i)) (map snd latest) = prev_row # rest \<and>
            (safe_price_convert (Current_Price prev_row) = Inr None \<or>
             safe_price_convert (Current_Price (current_df ! i)) = Inr None \<or>
             safe_percent_convert (Daily_Change prev_row) = Inr None \<or>
             safe_percent_convert (Daily_Change (current_df ! i)) = Inr None) \<longrightarrow>
            comparison_unset (out ! i))"
proof -
  from assms(1) obtain latest where
    latest: "get_latest_data self = Some latest" and
    out: "out = map (compare_row (map snd latest)) current_df"
    by (auto simp: compare_with_previous_def split: option.splits)
  from out assms(2) have nth: "out ! i = compare_row (map snd latest) (current_df ! i)"
    by simp
  show ?thesis
    using latest out compare_row_all_or_nothing [of "map snd latest" "current_df ! i"]
      compare_row_None [of "current_df ! i" "map snd latest"]
    unfolding nth by auto
qed

theorem compare_all_or_nothing_witness:
  "compare_with_previous (example_store [example_snapshot 1000 ''ACME'' 100 ''Yahoo Finance''])
       [example_quote ''ACME'' (PyStr ''$106.00'') PyNone]
     = Some [with_comparison (example_quote ''ACME'' (PyStr ''$106.00'') PyNone)
               PyNone PyNone PyNone PyNone] \<and>
   safe_price_convert (PyStr ''$100.00'') = Inr (Some 100) \<and>
   safe_price_convert (PyStr ''$106.00'') = Inr (Some 106) \<and>
   safe_percent_convert PyNone = Inr None \<and>
   comparison_unset ([with_comparison (example_quote ''ACME'' (PyStr ''$106.00'') PyNone)
               PyNone PyNone PyNone PyNone] ! 0)"
proof -
  have out: "compare_with_previous
       (example_store [example_snapshot 1000 ''ACME'' 100 ''Yahoo Finance''])
       [example_quote ''ACME'' (PyStr ''$106.00'') PyNone]
     = Some [with_comparison (example_quote ''ACME'' (PyStr ''$106.00'') PyNone)
               PyNone PyNone PyNone PyNone]"
    by (simp add: text_defs store_defs compare_defs analyze_defs example_defs notion_defs
        report_defs)
  have latest: "get_latest_data
       (example_store [example_snapshot 1000 ''ACME'' 100 ''Yahoo Finance''])
     = Some [latest_row (example_snapshot 1000 ''ACME'' 100 ''Yahoo Finance'')]"
    by (simp add: text_defs store_defs compare_defs analyze_defs example_defs notion_defs
        report_defs)
  have found: "filter (\<lambda>p. Symbol p = Symbol ([example_quote ''ACME'' (PyStr ''$106.00'') PyNone] ! 0))
       (map snd [latest_row (example_snapshot 1000 ''ACME'' 100 ''Yahoo Finance'')])
     = [snd (latest_row (example_snapshot 1000 ''ACME'' 100 ''Yahoo Finance''))]"
    by (simp add: latest_row_def example_snapshot_def example_quote_def)
  have conv: "safe_price_convert (PyStr ''$100.00'') = Inr (Some 100)"
    "safe_price_convert (PyStr ''$106.00'') = Inr (Some 106)"
    "safe_percent_convert PyNone = Inr None"
    by (simp_all add: text_defs store_defs compare_defs analyze_defs example_defs notion_defs
        report_defs)
  have none: "safe_percent_convert
      (Daily_Change ([example_quote ''ACME'' (PyStr ''$106.00'') PyNone] ! 0)) = Inr None"
    by (simp add: example_quote_def safe_percent_convert_def)
  from compare_all_or_nothing [OF out, of 0] latest found none
  have "comparison_unset ([with_comparison (example_quote ''ACME'' (PyStr ''$106.00'') PyNone)
               PyNone PyNone PyNone PyNone] ! 0)"
    by blast
  with out conv show ?thesis by simp
qed

section \<open>Properties of the alert analysis\<close>









text \<open>
  The report is the fixed sentence exactly when the analysis returned \<^verbatim>\<open>None\<close>, that is,
  when it failed.
\<close>

lemma generate_report_sentinel_iff:
  "generate_report self comparison_df = no_changes_text \<longleftrightarrow>
   analyze_price_changes self comparison_df = None"
  by (simp add: generate_report_def report_lines_def no_changes_text_def split: option.splits)

text \<open>
  C6 (the code departs from the claim). With no records at all, and with one record whose
  4 percent move stays under the threshold of 5, the analysis yields no alert of either
  kind, yet \<^verbatim>\<open>generate_report\<close> renders the header and the summary block instead of the
  fixed sentence.
\<close>

theorem generate_report_without_alerts:
  "analyze_price_changes (example_store []) []
     = Some \<lparr>significant_changes = [], daily_change_alerts = [], total_symbols = 0,
             n_significant_changes = 0, positive_changes = 0, negative_changes = 0\<rparr> \<and>
   generate_report (example_store []) [] \<noteq> no_changes_text \<and>
   analyze_price_changes (example_store []) [example_comparison ''$104.00'' ''$100.00'']
     = Some \<lparr>significant_changes = [], daily_change_alerts = [], total_symbols = 1,
             n_significant_changes = 0, positive_changes = 0, negative_changes = 0\<rparr> \<and>
   generate_report (example_store []) [example_comparison ''$104.00'' ''$100.00'']
     \<noteq> no_changes_text"
  by (simp add: text_defs store_defs compare_defs analyze_defs example_defs notion_defs
        report_defs)

text \<open>
  C7 (the code departs from the claim). The current price \<^verbatim>\<open>$1,234.56\<close> passes the
  comparison, which strips the thousands separator, so both records get their comparison
  columns. The analysis removes only the \<^verbatim>\<open>$\<close>: parsing that record raises, and the whole
  batch returns \<^verbatim>\<open>None\<close>, although the other record alone yields its alert.
\<close>

theorem analyze_aborts_whole_batch:
  "map_option (map comparison_set)
     (compare_with_previous
        (example_store [example_snapshot 1000 ''ACME'' 1000 ''Yahoo Finance'',
                        example_snapshot 1000 ''BETA'' 100 ''Yahoo Finance''])
        [example_quote ''ACME'' (PyStr ''$1,234.56'') (PyStr ''1.00%''),
         example_quote ''BETA'' (PyStr ''$106.00'') (PyStr ''1.00%'')])
     = Some [True, True] \<and>
   Option.bind
     (compare_with_previous
        (example_store [example_snapshot 1000 ''ACME'' 1000 ''Yahoo Finance'',
                        example_snapshot 1000 ''BETA'' 100 ''Yahoo Finance''])
        [example_quote ''ACME'' (PyStr ''$1,234.56'') (PyStr ''1.00%''),
         example_quote ''BETA'' (PyStr ''$106.00'') (PyStr ''1.00%'')])
     (analyze_price_changes
        (example_store [example_snapshot 1000 ''ACME'' 1000 ''Yahoo Finance'',
                        example_snapshot 1000 ''BETA'' 100 ''Yahoo Finance'']))
     = None \<and>
   map_option (\<lambda>a. map pa_symbol (significant_changes a))
     (Option.bind
       (compare_with_previous
          (example_store [example_snapshot 1000 ''ACME'' 1000 ''Yahoo Finance'',
                          example_snapshot 1000 ''BETA'' 100 ''Yahoo Finance''])
          [example_quote ''BETA'' (PyStr ''$106.00'') (PyStr ''1.00%'')])
       (analyze_price_changes
        (example_store [example_snapshot 1000 ''ACME'' 1000 ''Yahoo Finance'',
                        example_snapshot 1000 ''BETA'' 100 ''Yahoo Finance''])))
     = Some [''BETA'']"
  by (simp add: text_defs store_defs compare_defs analyze_defs example_defs notion_defs
        report_defs)

section \<open>Properties of the price conversion\<close>

lemma digit_char_props:
  assumes "d < 10"
  shows "is_digit (digit_char d)" and "digit_val (digit_char d) = d"
    and "\<not> is_space (digit_char d)"
    and "digit_char d \<noteq> CHR ''-''" and "digit_char d \<noteq> CHR ''+''"
    and "digit_char d \<noteq> CHR ''$''" and "digit_char d \<noteq> CHR '',''"
proof -
  from assms have "d \<in> {0, 1, 2, 3, 4, 5, 6, 7, 8, 9}" by auto
  then show "is_digit (digit_char d)" and "digit_val (digit_char d) = d"
    and "\<not> is_space (digit_char d)"
    and "digit_char d \<noteq> CHR ''-''" and "digit_char d \<noteq> CHR ''+''"
    and "digit_char d \<noteq> CHR ''$''" and "digit_char d \<noteq> CHR '',''"
    by (auto simp: digit_char_def is_digit_def digit_val_def is_space_def)
qed

lemma is_digit_plain:
  assumes "is_digit c"
  shows "\<not> is_space c" and "c \<noteq> CHR ''-''" and "c \<noteq> CHR ''+''" and "c \<noteq> CHR ''$''"
    and "c \<noteq> CHR '',''" and "c \<noteq> CHR ''.''"
  using assms by (auto simp: is_digit_def is_space_def)

lemma show_nat_digits: "list_all is_digit (show_nat n) \<and> show_nat n \<noteq> []"
proof (induction n rule: show_nat.induct)
  case (1 n)
  show ?case
  proof (cases "n < 10")
    case True
    then show ?thesis
      by (subst show_nat.simps, subst (2) show_nat.simps) (simp add: digit_char_props)
  next
    case False
    with 1 show ?thesis
      by (subst show_nat.simps, subst (2) show_nat.simps) (simp add: digit_char_props)
  qed
qed

lemma digits_val_snoc: "digits_val (ds @ [c]) = digits_val ds * 10 + digit_val c"
  by (simp add: digits_val_def)

lemma digits_val_show_nat: "digits_val (show_nat n) = n"
proof (induction n rule: show_nat.induct)
  case (1 n)
  show ?case
  proof (cases "n < 10")
    case True
    then show ?thesis
      by (subst show_nat.simps) (simp add: digits_val_def digit_char_props)
  next
    case False
    with 1 show ?thesis
      by (subst show_nat.simps) (simp add: digits_val_snoc digit_char_props)
  qed
qed

lemma unsigned_float_point:
  assumes "list_all is_digit ip" and "ip \<noteq> []" and "list_all is_digit fp"
  shows "unsigned_float (ip @ CHR ''.'' # fp) =
         Inr (of_nat (digits_val ip) + of_nat (digits_val fp) / 10 ^ length fp)"
proof -
  have nd: "\<not> is_digit CHR ''.''" by (simp add: is_digit_def)
  from assms(1) have all: "\<And>c. c \<in> set ip \<Longrightarrow> is_digit c"
    by (simp add: list_all_iff)
  have tw: "takeWhile is_digit (ip @ CHR ''.'' # fp) = ip"
    using all nd by (simp add: takeWhile_append2)
  have dw: "dropWhile is_digit (ip @ CHR ''.'' # fp) = CHR ''.'' # fp"
    using all nd by (simp add: dropWhile_append2)
  show ?thesis
    using assms(2,3) by (simp add: unsigned_float_def tw dw)
qed

lemma strip_plain:
  assumes "s \<noteq> []" and "\<not> is_space (hd s)" and "\<not> is_space (last s)"
  shows "strip s = s"
proof -
  from assms(1,2) have "dropWhile is_space s = s"
    by (cases s) simp_all
  moreover from assms(1,3) have "dropWhile is_space (rev s) = rev s"
    by (cases "rev s") (simp_all add: last_rev [symmetric] hd_rev)
  ultimately show ?thesis by (simp add: strip_def)
qed

lemma fmt2_cents: "fmt2 (of_nat n / 100) = cents_text n"
proof -
  have "round_half_even (of_nat n) = int n"
    by (simp add: round_half_even_def)
  then show ?thesis
    by (simp add: fmt2_def cents_text_def)
qed

lemma py_float_cents: "py_float (cents_text n) = Inr (of_nat n / 100)"
proof -
  let ?ip = "show_nat (n div 100)"
  let ?fp = "[digit_char (n mod 100 div 10), digit_char (n mod 10)]"
  have ip: "list_all is_digit ?ip" "?ip \<noteq> []"
    using show_nat_digits [of "n div 100"] by simp_all
  have fp: "list_all is_digit ?fp"
    by (simp add: digit_char_props)
  obtain c r where cr: "?ip = c # r" using ip(2) by (cases ?ip) auto
  with ip(1) have c: "is_digit c" by simp
  have shape: "cents_text n = c # (r @ CHR ''.'' # ?fp)"
    by (simp add: cents_text_def cr)
  have "strip (cents_text n) = cents_text n"
    by (rule strip_plain) (simp_all add: shape is_digit_plain [OF c] digit_char_props)
  then have "py_float (cents_text n) = unsigned_float (cents_text n)"
    by (simp add: py_float_def shape is_digit_plain [OF c])
  also have "cents_text n = ?ip @ CHR ''.'' # ?fp"
    by (simp add: cents_text_def)
  also have "unsigned_float (?ip @ CHR ''.'' # ?fp) =
      Inr (of_nat (digits_val ?ip) + of_nat (digits_val ?fp) / 10 ^ length ?fp)"
    by (rule unsigned_float_point [OF ip fp])
  also have "digits_val ?ip = n div 100"
    by (rule digits_val_show_nat)
  also have "digits_val ?fp = n mod 100"
  proof -
    have "n mod 10 = n mod 100 mod 10"
      by (simp add: mod_mod_cancel)
    moreover have "digits_val ?fp = (n mod 100 div 10) * 10 + n mod 10"
      by (simp add: digits_val_def digit_char_props)
    ultimately have "digits_val ?fp = (n mod 100 div 10) * 10 + n mod 100 mod 10"
      by (simp only:)
    then show ?thesis by (simp only: div_mult_mod_eq)
  qed
  also have "(of_nat (n div 100) + of_nat (n mod 100) / 10 ^ length ?fp :: rat) = of_nat n / 100"
  proof -
    have "(of_nat n :: rat) = of_nat (100 * (n div 100) + n mod 100)" by simp
    also have "\<dots> = 100 * of_nat (n div 100) + of_nat (n mod 100)"
      by (simp only: of_nat_add of_nat_mult of_nat_numeral)
    finally show ?thesis by (simp add: field_simps)
  qed
  finally show ?thesis by (simp add: cents_text_def)
qed

lemma cents_text_chars:
  "\<forall>c \<in> set (cents_text n). c \<noteq> CHR ''$'' \<and> c \<noteq> CHR '',''"
proof
  fix c assume "c \<in> set (cents_text n)"
  then consider "c \<in> set (show_nat (n div 100))" | "c = CHR ''.''"
    | "c = digit_char (n mod 100 div 10)" | "c = digit_char (n mod 10)"
    by (auto simp: cents_text_def)
  then show "c \<noteq> CHR ''$'' \<and> c \<noteq> CHR '',''"
  proof cases
    case 1
    with show_nat_digits [of "n div 100"] have "is_digit c"
      by (simp add: list_all_iff)
    then show ?thesis by (simp add: is_digit_plain)
  next
    case 2
    then show ?thesis by simp
  next
    case 3
    then show ?thesis by (simp add: digit_char_props)
  next
    case 4
    then show ?thesis by (simp add: digit_char_props)
  qed
qed

lemma two_decimals_cents:
  fixes x :: rat
  assumes "0 \<le> x" and "x * 100 \<in> \<int>"
  obtains n where "x = of_nat n / 100"
proof -
  from assms(2) obtain k where k: "x * 100 = of_int k" by (auto elim: Ints_cases)
  from assms(1) have "0 \<le> x * 100" by simp
  with k have "0 \<le> k" by simp
  then have "x * 100 = of_nat (nat k)" using k by simp
  then have "x = of_nat (nat k) / 100" by (simp add: field_simps)
  then show ?thesis by (rule that)
qed

text \<open>
  C8. A non-negative price with two decimal places, formatted as \<^verbatim>\<open>f"${x:.2f}"\<close> and
  converted back by \<^verbatim>\<open>safe_price_convert\<close>, is the original value. On any string the
  conversion parses what is left once every \<^verbatim>\<open>$\<close> and every thousands separator is
  removed, and a float is returned unchanged.
\<close>

theorem safe_price_convert_round_trip:
  "(0 \<le> x \<and> x * 100 \<in> \<int> \<longrightarrow>
      safe_price_convert (PyStr (''$'' @ fmt2 x)) = Inr (Some x)) \<and>
   safe_price_convert (PyStr s) =
      map_sum id Some (py_float (filter (\<lambda>c. c \<noteq> CHR ''$'' \<and> c \<noteq> CHR '','') s)) \<and>
   safe_price_convert (PyFloat y) = Inr (Some y)"
proof (intro conjI impI)
  assume "0 \<le> x \<and> x * 100 \<in> \<int>"
  then obtain n where n: "x = of_nat n / 100"
    using two_decimals_cents [of x] by blast
  have "str_remove CHR '','' (str_remove CHR ''$'' (''$'' @ fmt2 x)) = cents_text n"
    using cents_text_chars [of n] by (simp add: n fmt2_cents str_remove_def filter_id_conv)
  then show "safe_price_convert (PyStr (''$'' @ fmt2 x)) = Inr (Some x)"
    by (simp add: safe_price_convert_def py_float_cents n)
next
  have "str_remove CHR '','' (str_remove CHR ''$'' s) =
        filter (\<lambda>c. c \<noteq> CHR ''$'' \<and> c \<noteq> CHR '','') s"
    by (simp add: str_remove_def conj_commute)
  then show "safe_price_convert (PyStr s) =
      map_sum id Some (py_float (filter (\<lambda>c. c \<noteq> CHR ''$'' \<and> c \<noteq> CHR '','') s))"
    by (simp add: safe_price_convert_def)
next
  show "safe_price_convert (PyFloat y) = Inr (Some y)"
    by (simp add: safe_price_convert_def)
qed

theorem safe_price_convert_round_trip_witness:
  "fmt2 (12345 / 100) = ''123.45'' \<and>
   safe_price_convert (PyStr ''$123.45'') = Inr (Some (12345 / 100)) \<and>
   safe_price_convert (PyStr ''$1,234.56'') = Inr (Some (123456 / 100)) \<and>
   safe_price_convert (PyFloat (12345 / 100)) = Inr (Some (12345 / 100))"
proof -
  have f: "fmt2 (12345 / 100) = ''123.45''"
    by (simp add: text_defs)
  have h: "(0::rat) \<le> 12345 / 100 \<and> (12345 / 100 :: rat) * 100 \<in> \<int>"
    by simp
  have p: "py_float (filter (\<lambda>c. c \<noteq> CHR ''$'' \<and> c \<noteq> CHR '','') ''$1,234.56'')
       = Inr (123456 / 100)"
    by (simp add: text_defs)
  from safe_price_convert_round_trip [of "12345 / 100" "''$1,234.56''" "12345 / 100"] h f p
  show ?thesis by simp
qed

section \<open>Properties of the daily summary\<close>

lemma sql_max_one_value:
  "\<forall>x \<in> set xs. f x = None \<or> f x = v \<Longrightarrow>
   sql_max (map f xs) = (if \<exists>x \<in> set xs. f x = v then v else None)"
proof (induction xs)
  case Nil
  then show ?case by simp
next
  case (Cons x xs)
  then show ?case
    by (cases "f x"; cases v) (auto split: option.splits)
qed

lemma sql_max_at:
  assumes "x0 \<in> set xs" and "\<forall>x \<in> set xs. x \<noteq> x0 \<longrightarrow> f x = None"
  shows "sql_max (map f xs) = f x0"
proof -
  have "\<forall>x \<in> set xs. f x = None \<or> f x = f x0"
    using assms(2) by auto
  from sql_max_one_value [OF this] assms(1) show ?thesis
    by auto
qed

lemma non_nulls_simps:
  "non_nulls [] = []"
  "non_nulls (None # vs) = non_nulls vs"
  "non_nulls (Some x # vs) = x # non_nulls vs"
  by (simp_all add: non_nulls_def)

lemma sql_max_non_nulls:
  "sql_max vs = (if non_nulls vs = [] then None else Some (Max (set (non_nulls vs))))"
proof (induction vs rule: sql_max.induct)
  case 1
  then show ?case by (simp add: non_nulls_simps)
next
  case (2 vs)
  then show ?case by (simp add: non_nulls_simps)
next
  case (3 x vs)
  then show ?case by (simp add: non_nulls_simps Max_insert)
qed

lemma sql_min_non_nulls:
  "sql_min vs = (if non_nulls vs = [] then None else Some (Min (set (non_nulls vs))))"
proof (induction vs rule: sql_min.induct)
  case 1
  then show ?case by (simp add: non_nulls_simps)
next
  case (2 vs)
  then show ?case by (simp add: non_nulls_simps)
next
  case (3 x vs)
  then show ?case by (simp add: non_nulls_simps Min_insert)
qed

lemma same_key_same_index:
  assumes "distinct (map primary_key rows)" and "i < length rows" and "j < length rows"
    and "timestamp (rows ! j) = timestamp (rows ! i)" and "symbol (rows ! j) = symbol (rows ! i)"
  shows "j = i"
proof -
  have "map primary_key rows ! j = map primary_key rows ! i"
    using assms(2-5) by (simp add: primary_key_def)
  moreover have "j < length (map primary_key rows)" "i < length (map primary_key rows)"
    using assms(2,3) by simp_all
  ultimately show ?thesis
    using assms(1) nth_eq_iff_index_eq by blast
qed

lemma row_number_asc_one:
  assumes "distinct (map primary_key rows)" and "i < length rows"
  shows "row_number_asc rows i = 1 \<longleftrightarrow>
         (\<forall>j < length rows. same_partition (rows ! j) (rows ! i) \<longrightarrow>
            timestamp (rows ! i) \<le> timestamp (rows ! j))"
proof
  assume "row_number_asc rows i = 1"
  then have none: "\<forall>j < length rows. \<not> (same_partition (rows ! j) (rows ! i) \<and>
      (timestamp (rows ! j) < timestamp (rows ! i) \<or>
       timestamp (rows ! j) = timestamp (rows ! i) \<and> j < i))"
    by (simp add: row_number_asc_def filter_empty_conv)
  show "\<forall>j < length rows. same_partition (rows ! j) (rows ! i) \<longrightarrow>
            timestamp (rows ! i) \<le> timestamp (rows ! j)"
  proof (intro allI impI)
    fix j assume "j < length rows" "same_partition (rows ! j) (rows ! i)"
    with none have "\<not> timestamp (rows ! j) < timestamp (rows ! i)" by blast
    then show "timestamp (rows ! i) \<le> timestamp (rows ! j)" by simp
  qed
next
  assume least: "\<forall>j < length rows. same_partition (rows ! j) (rows ! i) \<longrightarrow>
            timestamp (rows ! i) \<le> timestamp (rows ! j)"
  have "\<not> (same_partition (rows ! j) (rows ! i) \<and>
      (timestamp (rows ! j) < timestamp (rows ! i) \<or>
       timestamp (rows ! j) = timestamp (rows ! i) \<and> j < i))" if j: "j < length rows" for j
  proof
    assume a: "same_partition (rows ! j) (rows ! i) \<and>
      (timestamp (rows ! j) < timestamp (rows ! i) \<or>
       timestamp (rows ! j) = timestamp (rows ! i) \<and> j < i)"
    with least j have le: "timestamp (rows ! i) \<le> timestamp (rows ! j)" by blast
    with a have eq: "timestamp (rows ! j) = timestamp (rows ! i)" and lt: "j < i" by auto
    from a have "symbol (rows ! j) = symbol (rows ! i)" by (simp add: same_partition_def)
    from same_key_same_index [OF assms(1,2) j eq this] lt show False by simp
  qed
  then show "row_number_asc rows i = 1"
    by (simp add: row_number_asc_def filter_empty_conv)
qed

lemma row_number_desc_one:
  assumes "distinct (map primary_key rows)" and "i < length rows"
  shows "row_number_desc rows i = 1 \<longleftrightarrow>
         (\<forall>j < length rows. same_partition (rows ! j) (rows ! i) \<longrightarrow>
            timestamp (rows ! j) \<le> timestamp (rows ! i))"
proof
  assume "row_number_desc rows i = 1"
  then have none: "\<forall>j < length rows. \<not> (same_partition (rows ! j) (rows ! i) \<and>
      (timestamp (rows ! i) < timestamp (rows ! j) \<or>
       timestamp (rows ! j) = timestamp (rows ! i) \<and> j < i))"
    by (simp add: row_number_desc_def filter_empty_conv)
  show "\<forall>j < length rows. same_partition (rows ! j) (rows ! i) \<longrightarrow>
            timestamp (rows ! j) \<le> timestamp (rows ! i)"
  proof (intro allI impI)
    fix j assume "j < length rows" "same_partition (rows ! j) (rows ! i)"
    with none have "\<not> timestamp (rows ! i) < timestamp (rows ! j)" by blast
    then show "timestamp (rows ! j) \<le> timestamp (rows ! i)" by simp
  qed
next
  assume greatest: "\<forall>j < length rows. same_partition (rows ! j) (rows ! i) \<longrightarrow>
            timestamp (rows ! j) \<le> timestamp (rows ! i)"
  have "\<not> (same_partition (rows ! j) (rows ! i) \<and>
      (timestamp (rows ! i) < timestamp (rows ! j) \<or>
       timestamp (rows ! j) = timestamp (rows ! i) \<and> j < i))" if j: "j < length rows" for j
  proof
    assume a: "same_partition (rows ! j) (rows ! i) \<and>
      (timestamp (rows ! i) < timestamp (rows ! j) \<or>
       timestamp (rows ! j) = timestamp (rows ! i) \<and> j < i)"
    with greatest j have le: "timestamp (rows ! j) \<le> timestamp (rows ! i)" by blast
    with a have eq: "timestamp (rows ! j) = timestamp (rows ! i)" and lt: "j < i" by auto
    from a have "symbol (rows ! j) = symbol (rows ! i)" by (simp add: same_partition_def)
    from same_key_same_index [OF assms(1,2) j eq this] lt show False by simp
  qed
  then show "row_number_desc rows i = 1"
    by (simp add: row_number_desc_def filter_empty_conv)
qed

lemma filter_by_index:
  "filter p xs = map (nth xs) (filter (\<lambda>i. p (xs ! i)) [0..<length xs])"
proof -
  have "filter p (map (nth xs) [0..<length xs]) =
        map (nth xs) (filter (p \<circ> nth xs) [0..<length xs])"
    by (rule filter_map)
  then show ?thesis by (simp add: map_nth comp_def)
qed

lemma remdups_constant:
  "xs \<noteq> [] \<Longrightarrow> \<forall>x \<in> set xs. x = k \<Longrightarrow> remdups xs = [k]"
proof (induction xs)
  case Nil
  then show ?case by simp
next
  case (Cons x xs)
  then show ?case by (cases xs) auto
qed

lemma partition_rows_indices:
  "partition_rows rows d s = map (nth rows) (partition_indices rows d s)"
  unfolding partition_rows_def partition_indices_def by (rule filter_by_index)

lemma partition_indices_iff:
  "i \<in> set (partition_indices rows d s) \<longleftrightarrow>
   i < length rows \<and> date_of (timestamp (rows ! i)) = d \<and> symbol (rows ! i) = s"
  by (auto simp: partition_indices_def)

lemma same_partition_iff:
  assumes "i \<in> set (partition_indices rows d s)" and "j < length rows"
  shows "same_partition (rows ! j) (rows ! i) \<longleftrightarrow> j \<in> set (partition_indices rows d s)"
  using assms by (auto simp: partition_indices_iff same_partition_def)

lemma opening_value:
  assumes pk: "distinct (map primary_key rows)"
    and i0: "i0 \<in> set (partition_indices rows d s)"
    and least: "\<forall>j \<in> set (partition_indices rows d s).
                  timestamp (rows ! i0) \<le> timestamp (rows ! j)"
  shows "sql_max (map (\<lambda>i. if row_number_asc rows i = 1 then val (rows ! i) else None)
                  (partition_indices rows d s)) = val (rows ! i0)"
proof -
  let ?f = "\<lambda>i. if row_number_asc rows i = 1 then val (rows ! i) else None"
  from i0 have i0n: "i0 < length rows" by (simp add: partition_indices_iff)
  have one: "row_number_asc rows i0 = 1"
    unfolding row_number_asc_one [OF pk i0n]
    using least same_partition_iff [OF i0] by blast
  have other: "?f i = None" if i: "i \<in> set (partition_indices rows d s)" and ne: "i \<noteq> i0" for i
  proof -
    from i have n: "i < length rows" by (simp add: partition_indices_iff)
    have "row_number_asc rows i \<noteq> 1"
    proof
      assume "row_number_asc rows i = 1"
      then have "\<forall>j < length rows. same_partition (rows ! j) (rows ! i) \<longrightarrow>
            timestamp (rows ! i) \<le> timestamp (rows ! j)"
        unfolding row_number_asc_one [OF pk n] .
      with i0n same_partition_iff [OF i i0n] i0
      have "timestamp (rows ! i) \<le> timestamp (rows ! i0)" by blast
      moreover from least i have "timestamp (rows ! i0) \<le> timestamp (rows ! i)" by blast
      ultimately have eq: "timestamp (rows ! i) = timestamp (rows ! i0)" by simp
      from i i0 have "symbol (rows ! i) = symbol (rows ! i0)"
        by (simp add: partition_indices_iff)
      from same_key_same_index [OF pk i0n n eq this] ne show False by simp
    qed
    then show ?thesis by simp
  qed
  have "sql_max (map ?f (partition_indices rows d s)) = ?f i0"
    by (rule sql_max_at [OF i0]) (use other in blast)
  with one show ?thesis by simp
qed

lemma closing_value:
  assumes pk: "distinct (map primary_key rows)"
    and i0: "i0 \<in> set (partition_indices rows d s)"
    and greatest: "\<forall>j \<in> set (partition_indices rows d s).
                  timestamp (rows ! j) \<le> timestamp (rows ! i0)"
  shows "sql_max (map (\<lambda>i. if row_number_desc rows i = 1 then val (rows ! i) else None)
                  (partition_indices rows d s)) = val (rows ! i0)"
proof -
  let ?f = "\<lambda>i. if row_number_desc rows i = 1 then val (rows ! i) else None"
  from i0 have i0n: "i0 < length rows" by (simp add: partition_indices_iff)
  have one: "row_number_desc rows i0 = 1"
    unfolding row_number_desc_one [OF pk i0n]
    using greatest same_partition_iff [OF i0] by blast
  have other: "?f i = None" if i: "i \<in> set (partition_indices rows d s)" and ne: "i \<noteq> i0" for i
  proof -
    from i have n: "i < length rows" by (simp add: partition_indices_iff)
    have "row_number_desc rows i \<noteq> 1"
    proof
      assume "row_number_desc rows i = 1"
      then have "\<forall>j < length rows. same_partition (rows ! j) (rows ! i) \<longrightarrow>
            timestamp (rows ! j) \<le> timestamp (rows ! i)"
        unfolding row_number_desc_one [OF pk n] .
      with i0n same_partition_iff [OF i i0n] i0
      have "timestamp (rows ! i0) \<le> timestamp (rows ! i)" by blast
      moreover from greatest i have "timestamp (rows ! i) \<le> timestamp (rows ! i0)" by blast
      ultimately have eq: "timestamp (rows ! i) = timestamp (rows ! i0)" by simp
      from i i0 have "symbol (rows ! i) = symbol (rows ! i0)"
        by (simp add: partition_indices_iff)
      from same_key_same_index [OF pk i0n n eq this] ne show False by simp
    qed
    then show ?thesis by simp
  qed
  have "sql_max (map ?f (partition_indices rows d s)) = ?f i0"
    by (rule sql_max_at [OF i0]) (use other in blast)
  with one show ?thesis by simp
qed

lemma group_of_partition:
  assumes "\<forall>r \<in> set (partition_rows rows d s). company r = c \<and> sources r = src"
  shows "filter (\<lambda>r. group_key r = (d, s, c, src)) (ranked_data rows) =
         map (ranked_row rows) (partition_indices rows d s)"
proof -
  have "(group_key (ranked_row rows i) = (d, s, c, src)) =
        (date_of (timestamp (rows ! i)) = d \<and> symbol (rows ! i) = s)"
    if "i \<in> set [0..<length rows]" for i
  proof -
    have "company (rows ! i) = c \<and> sources (rows ! i) = src"
      if "date_of (timestamp (rows ! i)) = d \<and> symbol (rows ! i) = s"
    proof -
      from that \<open>i \<in> set [0..<length rows]\<close> have "rows ! i \<in> set (partition_rows rows d s)"
        by (simp add: partition_rows_def)
      with assms show ?thesis by blast
    qed
    then show ?thesis
      by (auto simp: group_key_def ranked_row_def)
  qed
  then have "filter (\<lambda>i. group_key (ranked_row rows i) = (d, s, c, src)) [0..<length rows] =
        partition_indices rows d s"
    unfolding partition_indices_def by (intro filter_cong refl)
  then show ?thesis
    by (simp add: ranked_data_def filter_map comp_def)
qed

lemma keys_of_partition:
  assumes "partition_rows rows d s \<noteq> []"
    and "\<forall>r \<in> set (partition_rows rows d s). company r = c \<and> sources r = src"
  shows "filter (\<lambda>k. fst k = d \<and> fst (snd k) = s) (remdups (map group_key (ranked_data rows))) =
         [(d, s, c, src)]"
proof -
  let ?keys = "filter (\<lambda>k. fst k = d \<and> fst (snd k) = s) (map group_key (ranked_data rows))"
  have keys: "?keys = map (\<lambda>i. group_key (ranked_row rows i)) (partition_indices rows d s)"
    by (simp add: ranked_data_def filter_map comp_def partition_indices_def group_key_def
        ranked_row_def)
  from assms(1) have ne: "?keys \<noteq> []"
    by (simp add: keys partition_rows_indices)
  have "\<forall>k \<in> set ?keys. k = (d, s, c, src)"
  proof
    fix k assume "k \<in> set ?keys"
    then obtain i where i: "i \<in> set (partition_indices rows d s)"
      and k: "k = group_key (ranked_row rows i)"
      unfolding keys by auto
    from i have "rows ! i \<in> set (partition_rows rows d s)"
      by (simp add: partition_rows_indices)
    with assms(2) have "company (rows ! i) = c \<and> sources (rows ! i) = src" by blast
    with i k show "k = (d, s, c, src)"
      by (simp add: group_key_def ranked_row_def partition_indices_iff)
  qed
  from remdups_constant [OF ne this] show ?thesis
    by (simp add: remdups_filter)
qed

lemma summarise_key:
  "d_date (summarise k grp) = fst k" "d_symbol (summarise k grp) = fst (snd k)"
  by (simp_all add: summarise_def split: prod.splits)

lemma daily_summary_of_partition:
  assumes "partition_rows rows d s \<noteq> []"
    and "\<forall>r \<in> set (partition_rows rows d s). company r = c \<and> sources r = src"
  shows "filter (\<lambda>g. d_date g = d \<and> d_symbol g = s) (daily_summary rows) =
         [summarise (d, s, c, src) (map (ranked_row rows) (partition_indices rows d s))]"
proof -
  have "filter (\<lambda>g. d_date g = d \<and> d_symbol g = s) (daily_summary rows) =
        map (\<lambda>k. summarise k (filter (\<lambda>r. group_key r = k) (ranked_data rows)))
          (filter (\<lambda>k. fst k = d \<and> fst (snd k) = s)
             (remdups (map group_key (ranked_data rows))))"
    by (simp add: daily_summary_def Let_def filter_map comp_def summarise_key)
  then show ?thesis
    by (simp add: keys_of_partition [OF assms] group_of_partition [OF assms(2)])
qed

lemma summarise_fields:
  "opening_price (summarise k (map (ranked_row rows) idx)) =
     sql_max (map (\<lambda>i. if row_number_asc rows i = 1 then current_price (rows ! i) else None) idx)"
  "closing_price (summarise k (map (ranked_row rows) idx)) =
     sql_max (map (\<lambda>i. if row_number_desc rows i = 1 then current_price (rows ! i) else None) idx)"
  "high_price (summarise k (map (ranked_row rows) idx)) =
     sql_max (map current_price (map (nth rows) idx))"
  "low_price (summarise k (map (ranked_row rows) idx)) =
     sql_min (map current_price (map (nth rows) idx))"
  "average_price (summarise k (map (ranked_row rows) idx)) =
     sql_avg (map current_price (map (nth rows) idx))"
  by (simp_all add: summarise_def ranked_row_def comp_def split: prod.splits cong: if_cong)

text \<open>
  C5 (as amended). The view groups by \<^verbatim>\<open>(date, symbol, company, sources)\<close>. For a date and
  symbol all of whose rows carry the same company and sources (and a table that satisfies
  its primary key), \<^verbatim>\<open>get_daily_summary\<close> returns exactly one rollup for the symbol: its
  opening price is the price of the row with the minimum timestamp of that date and
  symbol, its closing price that of the row with the maximum timestamp, and high, low and
  average are the maximum, the minimum and the mean of the prices.
\<close>

theorem daily_summary_rollup:
  assumes conn: "conn_open self"
    and pk: "distinct (map primary_key (stock_snapshots self))"
    and ne: "partition_rows (stock_snapshots self) (date_of t) s \<noteq> []"
    and uniform: "\<forall>r \<in> set (partition_rows (stock_snapshots self) (date_of t) s).
                    company r = c \<and> sources r = src"
  shows "\<exists>out g.
     get_daily_summary self (Some t) now = Some out \<and>
     filter (\<lambda>g. d_symbol g = s) out = [g] \<and>
     (\<forall>r \<in> set (partition_rows (stock_snapshots self) (date_of t) s).
        (\<forall>r' \<in> set (partition_rows (stock_snapshots self) (date_of t) s).
           timestamp r \<le> timestamp r') \<longrightarrow> opening_price g = current_price r) \<and>
     (\<forall>r \<in> set (partition_rows (stock_snapshots self) (date_of t) s).
        (\<forall>r' \<in> set (partition_rows (stock_snapshots self) (date_of t) s).
           timestamp r' \<le> timestamp r) \<longrightarrow> closing_price g = current_price r) \<and>
     (partition_prices (stock_snapshots self) (date_of t) s \<noteq> [] \<longrightarrow>
        high_price g = Some (Max (set (partition_prices (stock_snapshots self) (date_of t) s))) \<and>
        low_price g = Some (Min (set (partition_prices (stock_snapshots self) (date_of t) s))) \<and>
        average_price g = Some (mean (partition_prices (stock_snapshots self) (date_of t) s)))"
proof -
  define rows where "rows = stock_snapshots self"
  define d where "d = date_of t"
  define idx where "idx = partition_indices rows d s"
  define g where "g = summarise (d, s, c, src) (map (ranked_row rows) idx)"
  note P = partition_rows_indices [of rows d s, folded idx_def]
  have out: "get_daily_summary self (Some t) now =
      Some (filter (\<lambda>g. d_date g = d) (daily_summary rows))"
    using conn by (simp add: get_daily_summary_def rows_def d_def)
  have one: "filter (\<lambda>g. d_symbol g = s) (filter (\<lambda>g. d_date g = d) (daily_summary rows)) = [g]"
    using daily_summary_of_partition [of rows d s c src] ne uniform
    by (simp add: rows_def d_def g_def idx_def conj_commute)
  have open_eq: "opening_price g = current_price r"
    if r: "r \<in> set (partition_rows rows d s)"
      and least: "\<forall>r' \<in> set (partition_rows rows d s). timestamp r \<le> timestamp r'" for r
  proof -
    from r obtain i0 where i0: "i0 \<in> set idx" and ri: "r = rows ! i0"
      unfolding P by auto
    from least have "\<forall>j \<in> set idx. timestamp (rows ! i0) \<le> timestamp (rows ! j)"
      unfolding P ri by simp
    from opening_value [OF pk [folded rows_def] i0 [unfolded idx_def] this [unfolded idx_def],
        of current_price]
    show ?thesis by (simp add: g_def summarise_fields idx_def ri)
  qed
  have close_eq: "closing_price g = current_price r"
    if r: "r \<in> set (partition_rows rows d s)"
      and greatest: "\<forall>r' \<in> set (partition_rows rows d s). timestamp r' \<le> timestamp r" for r
  proof -
    from r obtain i0 where i0: "i0 \<in> set idx" and ri: "r = rows ! i0"
      unfolding P by auto
    from greatest have "\<forall>j \<in> set idx. timestamp (rows ! j) \<le> timestamp (rows ! i0)"
      unfolding P ri by simp
    from closing_value [OF pk [folded rows_def] i0 [unfolded idx_def] this [unfolded idx_def],
        of current_price]
    show ?thesis by (simp add: g_def summarise_fields idx_def ri)
  qed
  have aggregates: "high_price g = Some (Max (set (partition_prices rows d s))) \<and>
        low_price g = Some (Min (set (partition_prices rows d s))) \<and>
        average_price g = Some (mean (partition_prices rows d s))"
    if "partition_prices rows d s \<noteq> []"
    using that
    by (simp add: g_def summarise_fields P [symmetric] sql_max_non_nulls sql_min_non_nulls
        sql_avg_def mean_def partition_prices_def)
  show ?thesis
    using out one open_eq close_eq aggregates
    unfolding rows_def [symmetric] d_def [symmetric] by blast
qed

theorem daily_summary_rollup_witness:
  "get_daily_summary (example_store
         [example_snapshot 1000 ''ACME'' 100 ''Yahoo Finance'',
          example_snapshot 2000 ''ACME'' 105 ''Yahoo Finance'',
          example_snapshot 3000 ''ACME'' 98 ''Yahoo Finance'']) (Some 1500) 0
     = Some [\<lparr>d_date = 0, d_symbol = ''ACME'', d_company = ''Acme'',
              opening_price = Some 100, closing_price = Some 98, high_price = Some 105,
              low_price = Some 98, average_price = Some 101, opening_change = Some 1,
              closing_change = Some 1, d_sources = ''Yahoo Finance''\<rparr>]"
proof -
  let ?S = "example_store
         [example_snapshot 1000 ''ACME'' 100 ''Yahoo Finance'',
          example_snapshot 2000 ''ACME'' 105 ''Yahoo Finance'',
          example_snapshot 3000 ''ACME'' 98 ''Yahoo Finance'']"
  have h1: "conn_open ?S"
    by (simp add: example_defs)
  have h2: "distinct (map primary_key (stock_snapshots ?S))"
    by (simp add: example_defs primary_key_def)
  have h3: "partition_rows (stock_snapshots ?S) (date_of 1500) ''ACME'' \<noteq> []"
    by (simp add: example_defs partition_rows_def date_of_def)
  have h4: "\<forall>r \<in> set (partition_rows (stock_snapshots ?S) (date_of 1500) ''ACME'').
              company r = ''Acme'' \<and> sources r = ''Yahoo Finance''"
    by (simp add: example_defs partition_rows_def date_of_def)
  from daily_summary_rollup [OF h1 h2 h3 h4, of 0]
  obtain out where "get_daily_summary ?S (Some 1500) 0 = Some out"
    by blast
  moreover have "get_daily_summary ?S (Some 1500) 0
     = Some [\<lparr>d_date = 0, d_symbol = ''ACME'', d_company = ''Acme'',
              opening_price = Some 100, closing_price = Some 98, high_price = Some 105,
              low_price = Some 98, average_price = Some 101, opening_change = Some 1,
              closing_change = Some 1, d_sources = ''Yahoo Finance''\<rparr>]"
    by (simp add: summary_defs non_nulls_simps example_defs upt_rec)
  ultimately show ?thesis by simp
qed

text \<open>
  The claim as stated fails when the sources change within the day: the two rows of one
  date and symbol fall into two groups, and the view reports two rollups, one without a
  closing price and one without an opening price, each with the high, low and average of
  its own row only.
\<close>

theorem daily_summary_counterexample:
  "get_daily_summary (example_store
         [example_snapshot 1000 ''ACME'' 100 ''Yahoo Finance'',
          example_snapshot 2000 ''ACME'' 105 ''Yahoo Finance + Alpha Vantage'']) (Some 1500) 0
     = Some [\<lparr>d_date = 0, d_symbol = ''ACME'', d_company = ''Acme'',
              opening_price = Some 100, closing_price = None, high_price = Some 100,
              low_price = Some 100, average_price = Some 100, opening_change = Some 1,
              closing_change = None, d_sources = ''Yahoo Finance''\<rparr>,
             \<lparr>d_date = 0, d_symbol = ''ACME'', d_company = ''Acme'',
              opening_price = None, closing_price = Some 105, high_price = Some 105,
              low_price = Some 105, average_price = Some 105, opening_change = None,
              closing_change = Some 1, d_sources = ''Yahoo Finance + Alpha Vantage''\<rparr>]"
  by (simp add: summary_defs non_nulls_simps example_defs upt_rec)

end
